theory Spec2Isabelle
  imports Complex_Main "HOL-Library.Word" "HOL-Library.Log_Nat"
begin

section \<open>Numbers and arrays\<close>

text \<open>
  The notebook \<^verbatim>\<open>04_keras_CNN.ipynb\<close> is a straight-line script over NumPy and Keras.
  Its numbers are IEEE floats: \<^verbatim>\<open>astype('float32')\<close> makes binary32 values and a Python
  literal such as \<^verbatim>\<open>0.01\<close> is a binary64 value. A float is modelled by the rational it
  denotes, or by an infinity (the flag is the sign bit) or a NaN. The two zeros are not
  told apart.
\<close>

datatype fp = Finite rat | Infinity bool | NaN

text \<open>\<open>ilog2 r\<close> is the binary exponent of a positive rational: \<open>2^e \<le> r < 2^(e+1)\<close>.\<close>

definition ilog2 :: "rat \<Rightarrow> int" where
  "ilog2 r = (if 1 \<le> r then bitlen \<lfloor>r\<rfloor> - 1 else - bitlen (\<lceil>1 / r\<rceil> - 1))"

definition round_half_even :: "rat \<Rightarrow> int" where
  "round_half_even r =
     (let f = \<lfloor>r\<rfloor>; d = r - of_int f
      in if d < 1 / 2 then f else if 1 / 2 < d then f + 1 else if even f then f else f + 1)"

text \<open>
  Rounding to the nearest float of precision \<open>p\<close> bits with exponents \<open>emin .. emax\<close>, ties
  to even: below \<open>2^emin\<close> the spacing stays that of the subnormals, and a result of
  \<open>2^(emax+1)\<close> or more overflows to an infinity.
\<close>

definition float_round :: "nat \<Rightarrow> int \<Rightarrow> int \<Rightarrow> rat \<Rightarrow> fp" where
  "float_round p emin emax r =
     (if r = 0 then Finite 0
      else let e = max (ilog2 \<bar>r\<bar>) emin;
               q = 2 powi (e - int p + 1);
               v = of_int (round_half_even (\<bar>r\<bar> / q)) * q
           in if 2 powi (emax + 1) \<le> v then Infinity (r < 0) else Finite (sgn r * v))"

definition float32 :: "rat \<Rightarrow> fp" where
  "float32 = float_round 24 (- 126) 127"

definition float64 :: "rat \<Rightarrow> fp" where
  "float64 = float_round 53 (- 1022) 1023"

text \<open>A Python float literal: the binary64 value nearest to the decimal written.\<close>

definition py_float :: "rat \<Rightarrow> fp" where
  "py_float = float64"

text \<open>IEEE division, rounded by \<open>rnd\<close> into the format of the operands.\<close>

fun fp_div :: "(rat \<Rightarrow> fp) \<Rightarrow> fp \<Rightarrow> fp \<Rightarrow> fp" where
  "fp_div rnd NaN b = NaN"
| "fp_div rnd a NaN = NaN"
| "fp_div rnd (Infinity s) (Infinity t) = NaN"
| "fp_div rnd (Infinity s) (Finite b) = Infinity (s \<noteq> (b < 0))"
| "fp_div rnd (Finite a) (Infinity t) = Finite 0"
| "fp_div rnd (Finite a) (Finite b) =
     (if b = 0 then (if a = 0 then NaN else Infinity (a < 0)) else rnd (a / b))"

text \<open>A NumPy array: its \<^verbatim>\<open>shape\<close> and its elements in row-major order.\<close>

datatype 'a ndarray = NDArray (shape: "nat list") (flat: "'a list")

text \<open>
  The name \<^verbatim>\<open>X_train\<close> is bound first to the \<^verbatim>\<open>uint8\<close> array of the dataset and
  then to a float array, so an image array carries its dtype.
\<close>

datatype images = UInt8 "8 word ndarray" | Float32 "fp ndarray" | Float64 "fp ndarray"

fun dims :: "images \<Rightarrow> nat list" where
  "dims (UInt8 a) = shape a"
| "dims (Float32 a) = shape a"
| "dims (Float64 a) = shape a"

text \<open>\<^verbatim>\<open>X.astype('float32')\<close>: every \<^verbatim>\<open>uint8\<close> value is a binary32 value.\<close>

fun fp_cast :: "(rat \<Rightarrow> fp) \<Rightarrow> fp \<Rightarrow> fp" where
  "fp_cast rnd (Finite a) = rnd a"
| "fp_cast rnd (Infinity s) = Infinity s"
| "fp_cast rnd NaN = NaN"

fun astype_float32 :: "images \<Rightarrow> images" where
  "astype_float32 (UInt8 a) =
     Float32 (NDArray (shape a) (map (\<lambda>p. float32 (of_nat (unat p))) (flat a)))"
| "astype_float32 (Float32 a) = Float32 a"
| "astype_float32 (Float64 a) = Float32 (NDArray (shape a) (map (fp_cast float32) (flat a)))"

text \<open>
  \<^verbatim>\<open>X / k\<close> for a Python integer \<open>k\<close>: elementwise true division. The scalar takes the
  dtype of a float array; an integer array is divided in binary64.
\<close>

fun true_divide :: "images \<Rightarrow> nat \<Rightarrow> images" where
  "true_divide (UInt8 a) k =
     Float64 (NDArray (shape a)
       (map (\<lambda>p. fp_div float64 (float64 (of_nat (unat p))) (float64 (of_nat k))) (flat a)))"
| "true_divide (Float32 a) k =
     Float32 (NDArray (shape a) (map (\<lambda>v. fp_div float32 v (float32 (of_nat k))) (flat a)))"
| "true_divide (Float64 a) k =
     Float64 (NDArray (shape a) (map (\<lambda>v. fp_div float64 v (float64 (of_nat k))) (flat a)))"

section \<open>Exceptions\<close>

text \<open>
  What a statement can raise: the two Python errors the notebook's own expressions can
  produce, and whatever the library raises from inside a call (\<open>Raised\<close>, of a type the
  notebook knows nothing about).
\<close>

datatype 'e exn = IndexError | AttributeError | Raised 'e

definition bind_exn :: "'e exn + 'a \<Rightarrow> ('a \<Rightarrow> 'e exn + 'b) \<Rightarrow> 'e exn + 'b" where
  "bind_exn m f = (case m of Inl e \<Rightarrow> Inl e | Inr v \<Rightarrow> f v)"

text \<open>\<^verbatim>\<open>X.shape[0]\<close>: indexing an empty tuple raises.\<close>

definition shape0 :: "nat list \<Rightarrow> 'e exn + nat" where
  "shape0 sh = (case sh of [] \<Rightarrow> Inl IndexError | n # _ \<Rightarrow> Inr n)"

section \<open>One-hot labels\<close>

text \<open>
  Modelled from the spec: \<^verbatim>\<open>np_utils.to_categorical\<close> is Keras code, not in the
  repository. The spec's glossary: a one-hot vector represents a label "as a vector with a
  single 1 at the label's index and 0 elsewhere"; the notebook's text gives
  \<^verbatim>\<open>[0, 0, 0, 1, 0, 0, 0, 0, 0, 0]\<close> for label 3 of 10 classes. A label with no index in
  the vector raises, as an array write out of range does.
\<close>

definition one_hot :: "nat \<Rightarrow> nat \<Rightarrow> fp list" where
  "one_hot n t = (replicate n (Finite 0))[t := Finite 1]"

definition to_categorical :: "nat ndarray \<Rightarrow> nat \<Rightarrow> 'e exn + fp ndarray" where
  "to_categorical y n =
     (if list_ex (\<lambda>t. n \<le> t) (flat y) then Inl IndexError
      else Inr (NDArray [length (flat y), n] (concat (map (one_hot n) (flat y)))))"

section \<open>Keras objects\<close>

text \<open>
  A layer is the constructor call that made it. Keyword arguments the call may leave out
  are options: \<^verbatim>\<open>border_mode\<close>, \<^verbatim>\<open>activation\<close> and \<^verbatim>\<open>input_shape\<close> of
  \<^verbatim>\<open>Convolution2D(nb_filter, nb_row, nb_col, ...)\<close>, and \<^verbatim>\<open>activation\<close> of
  \<^verbatim>\<open>Dense(output_dim, ...)\<close>.
\<close>

datatype layer =
    Convolution2D nat nat nat "string option" "string option" "nat list option"
  | Activation string
  | MaxPooling2D "nat \<times> nat"
  | Dropout fp
  | Flatten
  | Dense nat "string option"

text \<open>
  A symbolic tensor of the functional API remembers how it was made: it is the network's
  \<^verbatim>\<open>Input\<close> or the result of calling a layer on a tensor.
\<close>

datatype tensor = Input "nat list" | Apply layer tensor

text \<open>
  The two kinds of model: a \<^verbatim>\<open>Sequential\<close> holding the layers added so far, and a
  \<^verbatim>\<open>Model(input=..., output=...)\<close>.
\<close>

datatype model = Sequential "layer list" | Model tensor tensor

record sgd_optimizer =
  lr :: fp
  decay :: fp
  momentum :: fp
  nesterov :: bool

record image_data_generator =
  featurewise_center :: bool
  samplewise_center :: bool
  featurewise_std_normalization :: bool
  samplewise_std_normalization :: bool
  zca_whitening :: bool
  rotation_range :: int
  width_shift_range :: fp
  height_shift_range :: fp
  horizontal_flip :: bool
  vertical_flip :: bool

text \<open>\<^verbatim>\<open>datagen.flow(X, Y, batch_size=...)\<close>: the batch iterator handed to the training.\<close>

datatype flow = Flow image_data_generator images "fp ndarray" nat

text \<open>
  The calls that make the library act on a model or on the data, with their arguments in
  the order of the source:
  \<^item> \<^verbatim>\<open>model.summary()\<close>;
  \<^item> \<^verbatim>\<open>model.compile(loss, optimizer, metrics)\<close>;
  \<^item> \<^verbatim>\<open>model.fit(X, Y, batch_size, nb_epoch, validation_data, shuffle)\<close>;
  \<^item> \<^verbatim>\<open>datagen.fit(X)\<close>;
  \<^item> \<^verbatim>\<open>model.fit_generator(flow, samples_per_epoch, nb_epoch, validation_data)\<close>.
\<close>

datatype call =
    Summary model
  | Compile model string sgd_optimizer "string list"
  | Fit model images "fp ndarray" nat nat "images \<times> fp ndarray" bool
  | DatagenFit image_data_generator images
  | FitGenerator model flow nat nat "images \<times> fp ndarray"

text \<open>
  What \<^verbatim>\<open>print\<close> is given, one \<open>Print\<close> for each call: a string, a shape, a format
  string with the numbers it is filled with, the summary table of a model,
  \<^verbatim>\<open>None\<close>.
\<close>

datatype pyval =
    PStr string
  | PShape "nat list"
  | PFormat string "nat list"
  | PSummary model
  | PNone

datatype printed = Print "pyval list"

section \<open>The state of the notebook\<close>

text \<open>
  One field for each global name a cell assigns, the output printed so far and the log
  of the calls above. The tensor the source calls \<^verbatim>\<open>x\<close> is the field \<open>x_t\<close>.
\<close>

record env =
  nb_classes :: nat
  img_rows :: nat
  img_cols :: nat
  img_channels :: nat
  X_train :: images
  y_train :: "nat ndarray"
  X_test :: images
  y_test :: "nat ndarray"
  Y_train :: "fp ndarray"
  Y_test :: "fp ndarray"
  model :: model
  model_in :: tensor
  x_t :: tensor
  model_out :: tensor
  sgd :: sgd_optimizer
  batch_size :: nat
  nb_epoch :: nat
  data_augmentation :: bool
  datagen :: image_data_generator
  stdout :: "printed list"
  calls :: "call list"

text \<open>What \<^verbatim>\<open>cifar10.load_data()\<close> returns: \<^verbatim>\<open>(X_train, y_train), (X_test, y_test)\<close>.\<close>

type_synonym dataset = "(images \<times> nat ndarray) \<times> (images \<times> nat ndarray)"

section \<open>Programs\<close>

text \<open>
  A cell is a sequence of statements; the only control structure of the notebook is one
  \<^verbatim>\<open>if\<close>/\<^verbatim>\<open>else\<close>. A statement is tagged with its line in the notebook file and is the
  state change it makes when nothing goes wrong inside the library. There is no
  \<^verbatim>\<open>try\<close> in the notebook and none in the language.
\<close>

datatype 'e prog =
    Skip
  | Call nat "env \<Rightarrow> 'e exn + env"
  | Seq "'e prog" "'e prog"
  | IfElse "env \<Rightarrow> bool" "'e prog" "'e prog"

fun block :: "'e prog list \<Rightarrow> 'e prog" where
  "block [] = Skip"
| "block (p # ps) = Seq p (block ps)"

text \<open>
  Running a program against a library: \<open>R l s\<close> is the exception the library raises when
  the statement of line \<open>l\<close> is run in state \<open>s\<close>, if it raises one. The first exception
  ends the run and is its result.
\<close>

fun run :: "(nat \<Rightarrow> env \<Rightarrow> 'e option) \<Rightarrow> 'e prog \<Rightarrow> env \<Rightarrow> 'e exn + env" where
  "run R Skip s = Inr s"
| "run R (Call l f) s = (case R l s of Some e \<Rightarrow> Inl (Raised e) | None \<Rightarrow> f s)"
| "run R (Seq p q) s = (case run R p s of Inl e \<Rightarrow> Inl e | Inr t \<Rightarrow> run R q t)"
| "run R (IfElse b p q) s = (if b s then run R p s else run R q s)"

text \<open>The statements a run starts, in order, each with the state it starts in.\<close>

fun reach :: "(nat \<Rightarrow> env \<Rightarrow> 'e option) \<Rightarrow> 'e prog \<Rightarrow> env \<Rightarrow> (nat \<times> env) list" where
  "reach R Skip s = []"
| "reach R (Call l f) s = [(l, s)]"
| "reach R (Seq p q) s =
     reach R p s @ (case run R p s of Inl e \<Rightarrow> [] | Inr t \<Rightarrow> reach R q t)"
| "reach R (IfElse b p q) s = (if b s then reach R p s else reach R q s)"

text \<open>The lines of all the statements of a program, both branches of a conditional.\<close>

fun lines :: "'e prog \<Rightarrow> nat list" where
  "lines Skip = []"
| "lines (Call l f) = [l]"
| "lines (Seq p q) = lines p @ lines q"
| "lines (IfElse b p q) = lines p @ lines q"

text \<open>The library that never raises.\<close>

definition never :: "nat \<Rightarrow> env \<Rightarrow> 'e option" where
  "never l s = None"

section \<open>The cells\<close>

text \<open>
  Cell 1 (lines 66 to 88) loads the data, normalizes the images and encodes the labels.
  The argument \<open>D\<close> is what \<^verbatim>\<open>cifar10.load_data()\<close> returns.
\<close>

definition cell1 :: "dataset \<Rightarrow> 'e prog" where
  "cell1 D = block [
     Call 66 Inr,
     Call 67 Inr,
     Call 68 Inr,
     Call 71 (\<lambda>s. Inr (s\<lparr>nb_classes := 10\<rparr>)),
     Call 74 (\<lambda>s. Inr (s\<lparr>img_rows := 32, img_cols := 32, img_channels := 3\<rparr>)),
     Call 77 (\<lambda>s. Inr (s\<lparr>X_train := fst (fst D), y_train := snd (fst D),
                             X_test := fst (snd D), y_test := snd (snd D)\<rparr>)),
     Call 80 (\<lambda>s. Inr (s\<lparr>X_train := true_divide (astype_float32 (X_train s)) 255\<rparr>)),
     Call 81 (\<lambda>s. Inr (s\<lparr>X_test := true_divide (astype_float32 (X_test s)) 255\<rparr>)),
     Call 83 (\<lambda>s. Inr (s\<lparr>stdout := stdout s @
                 [Print [PStr ''X_train shape:'', PShape (dims (X_train s))]]\<rparr>)),
     Call 84 (\<lambda>s. bind_exn (shape0 (dims (X_train s))) (\<lambda>n_train.
                   bind_exn (shape0 (dims (X_test s))) (\<lambda>n_test.
                   Inr (s\<lparr>stdout := stdout s @
                     [Print [PFormat (''Train samples: {}'' @ [CHR 0x0A] @ ''Test samples: {}.'')
                               [n_train, n_test]]]\<rparr>)))),
     Call 87 (\<lambda>s. bind_exn (to_categorical (y_train s) (nb_classes s))
                   (\<lambda>Y. Inr (s\<lparr>Y_train := Y\<rparr>))),
     Call 88 (\<lambda>s. bind_exn (to_categorical (y_test s) (nb_classes s))
                   (\<lambda>Y. Inr (s\<lparr>Y_test := Y\<rparr>)))]"

text \<open>
  \<^verbatim>\<open>model.add(layer)\<close> appends to the layers of a \<^verbatim>\<open>Sequential\<close>; a \<^verbatim>\<open>Model\<close> has no
  such method. The layer may depend on the state (the input shape, the number of classes).
\<close>

definition add :: "(env \<Rightarrow> layer) \<Rightarrow> env \<Rightarrow> 'e exn + env" where
  "add mk s =
     (case model s of
        Sequential ls \<Rightarrow> Inr (s\<lparr>model := Sequential (ls @ [mk s])\<rparr>)
      | Model i out \<Rightarrow> Inl AttributeError)"

text \<open>Cell 2 (lines 115 to 140): the model in the sequential API.\<close>

definition cell2 :: "'e prog" where
  "cell2 = block [
     Call 115 Inr,
     Call 116 Inr,
     Call 117 Inr,
     Call 119 (\<lambda>s. Inr (s\<lparr>model := Sequential []\<rparr>)),
     Call 121 (add (\<lambda>s. Convolution2D 32 3 3 (Some ''same'') None
                           (Some (drop 1 (dims (X_train s)))))),
     Call 122 (add (\<lambda>s. Activation ''relu'')),
     Call 123 (add (\<lambda>s. Convolution2D 32 3 3 None None None)),
     Call 124 (add (\<lambda>s. Activation ''relu'')),
     Call 125 (add (\<lambda>s. MaxPooling2D (2, 2))),
     Call 126 (add (\<lambda>s. Dropout (py_float (25 / 100)))),
     Call 128 (add (\<lambda>s. Convolution2D 64 3 3 (Some ''same'') None None)),
     Call 129 (add (\<lambda>s. Activation ''relu'')),
     Call 130 (add (\<lambda>s. Convolution2D 64 3 3 None None None)),
     Call 131 (add (\<lambda>s. Activation ''relu'')),
     Call 132 (add (\<lambda>s. MaxPooling2D (2, 2))),
     Call 133 (add (\<lambda>s. Dropout (py_float (25 / 100)))),
     Call 135 (add (\<lambda>s. Flatten)),
     Call 136 (add (\<lambda>s. Dense 512 None)),
     Call 137 (add (\<lambda>s. Activation ''relu'')),
     Call 138 (add (\<lambda>s. Dropout (py_float (5 / 10)))),
     Call 139 (add (\<lambda>s. Dense (nb_classes s) None)),
     Call 140 (add (\<lambda>s. Activation ''softmax''))]"

text \<open>
  Cell 3 (lines 161 to 183): the model in the functional API. Each layer is called on the
  tensor before it, and the last line binds the name \<^verbatim>\<open>model\<close> again.
\<close>

definition cell3 :: "'e prog" where
  "cell3 = block [
     Call 161 Inr,
     Call 162 Inr,
     Call 163 Inr,
     Call 165 (\<lambda>s. Inr (s\<lparr>model_in := Input (drop 1 (dims (X_train s)))\<rparr>)),
     Call 167 (\<lambda>s. Inr (s\<lparr>x_t := Apply (Convolution2D 32 3 3 (Some ''same'') (Some ''relu'') None)
                                        (model_in s)\<rparr>)),
     Call 168 (\<lambda>s. Inr (s\<lparr>x_t := Apply (Convolution2D 32 3 3 None (Some ''relu'') None) (x_t s)\<rparr>)),
     Call 169 (\<lambda>s. Inr (s\<lparr>x_t := Apply (MaxPooling2D (2, 2)) (x_t s)\<rparr>)),
     Call 170 (\<lambda>s. Inr (s\<lparr>x_t := Apply (Dropout (py_float (25 / 100))) (x_t s)\<rparr>)),
     Call 172 (\<lambda>s. Inr (s\<lparr>x_t := Apply (Convolution2D 64 3 3 (Some ''same'') (Some ''relu'') None)
                                        (x_t s)\<rparr>)),
     Call 173 (\<lambda>s. Inr (s\<lparr>x_t := Apply (Convolution2D 64 3 3 None (Some ''relu'') None) (x_t s)\<rparr>)),
     Call 174 (\<lambda>s. Inr (s\<lparr>x_t := Apply (MaxPooling2D (2, 2)) (x_t s)\<rparr>)),
     Call 175 (\<lambda>s. Inr (s\<lparr>x_t := Apply (Dropout (py_float (25 / 100))) (x_t s)\<rparr>)),
     Call 177 (\<lambda>s. Inr (s\<lparr>x_t := Apply Flatten (x_t s)\<rparr>)),
     Call 178 (\<lambda>s. Inr (s\<lparr>x_t := Apply (Dense 512 (Some ''relu'')) (x_t s)\<rparr>)),
     Call 179 (\<lambda>s. Inr (s\<lparr>x_t := Apply (Dropout (py_float (5 / 10))) (x_t s)\<rparr>)),
     Call 180 (\<lambda>s. Inr (s\<lparr>x_t := Apply (Dense (nb_classes s) None) (x_t s)\<rparr>)),
     Call 181 (\<lambda>s. Inr (s\<lparr>model_out := Apply (Activation ''softmax'') (x_t s)\<rparr>)),
     Call 183 (\<lambda>s. Inr (s\<lparr>model := Model (model_in s) (model_out s)\<rparr>))]"

text \<open>
  Cell 4 (line 243), \<^verbatim>\<open>print(model.summary())\<close>: the summary prints the table and
  returns \<^verbatim>\<open>None\<close>, which is printed after it.
\<close>

definition cell4 :: "'e prog" where
  "cell4 = block [
     Call 243 (\<lambda>s. Inr (s\<lparr>calls := calls s @ [Summary (model s)],
                             stdout := stdout s @ [Print [PSummary (model s)], Print [PNone]]\<rparr>))]"

text \<open>Cell 5 (lines 272 to 278): the optimizer and the compilation.\<close>

definition cell5 :: "'e prog" where
  "cell5 = block [
     Call 272 Inr,
     Call 275 (\<lambda>s. Inr (s\<lparr>sgd := \<lparr>lr = py_float (1 / 100), decay = py_float (1 / 10 ^ 6),
                                     momentum = py_float (9 / 10), nesterov = True\<rparr>\<rparr>)),
     Call 276 (\<lambda>s. Inr (s\<lparr>calls := calls s @
                 [Compile (model s) ''categorical_crossentropy'' (sgd s) [''accuracy'']]\<rparr>))]"

text \<open>Cell 6 (lines 299 to 301): the training parameters.\<close>

definition cell6 :: "'e prog" where
  "cell6 = block [
     Call 299 (\<lambda>s. Inr (s\<lparr>batch_size := 128\<rparr>)),
     Call 300 (\<lambda>s. Inr (s\<lparr>nb_epoch := 200\<rparr>)),
     Call 301 (\<lambda>s. Inr (s\<lparr>data_augmentation := True\<rparr>))]"

text \<open>Cell 7 (lines 329 to 361): the training, with or without augmented images.\<close>

definition cell7 :: "'e prog" where
  "cell7 = block [
     Call 329 Inr,
     IfElse (\<lambda>s. \<not> data_augmentation s)
       (block [
          Call 332 (\<lambda>s. Inr (s\<lparr>stdout := stdout s @ [Print [PStr ''Not using data augmentation.'']]\<rparr>)),
          Call 333 (\<lambda>s. Inr (s\<lparr>calls := calls s @
                      [Fit (model s) (X_train s) (Y_train s) (batch_size s) (nb_epoch s)
                           (X_test s, Y_test s) True]\<rparr>))])
       (block [
          Call 339 (\<lambda>s. Inr (s\<lparr>stdout := stdout s @
                      [Print [PStr ''Using real-time data augmentation.'']]\<rparr>)),
          Call 341 (\<lambda>s. Inr (s\<lparr>datagen :=
                      \<lparr>featurewise_center = False,
                       samplewise_center = False,
                       featurewise_std_normalization = False,
                       samplewise_std_normalization = False,
                       zca_whitening = False,
                       rotation_range = 0,
                       width_shift_range = py_float (1 / 10),
                       height_shift_range = py_float (1 / 10),
                       horizontal_flip = True,
                       vertical_flip = False\<rparr>\<rparr>)),
          Call 355 (\<lambda>s. Inr (s\<lparr>calls := calls s @ [DatagenFit (datagen s) (X_train s)]\<rparr>)),
          Call 358 (\<lambda>s. bind_exn (shape0 (dims (X_train s))) (\<lambda>n.
                      Inr (s\<lparr>calls := calls s @
                        [FitGenerator (model s)
                           (Flow (datagen s) (X_train s) (Y_train s) (batch_size s))
                           n (nb_epoch s) (X_test s, Y_test s)]\<rparr>)))])]"

definition notebook :: "dataset \<Rightarrow> 'e prog" where
  "notebook D = block [cell1 D, cell2, cell3, cell4, cell5, cell6, cell7]"

section \<open>What a model computes\<close>

text \<open>
  The arithmetic of the layers is the library's. It is a parameter: a backend gives, for
  tensors of type \<open>'t\<close> and layer weights of type \<open>'w\<close>, the operation behind each kind of
  layer. A convolution or dense layer built with \<^verbatim>\<open>activation=a\<close> applies \<open>a\<close> to its
  output, and with no such argument leaves the output as it is; a convolution with no
  \<^verbatim>\<open>border_mode\<close> uses \<^verbatim>\<open>'valid'\<close>, the default the notebook's text recalls.
\<close>

record ('t, 'w) backend =
  conv2d :: "'w \<Rightarrow> nat \<Rightarrow> nat \<Rightarrow> nat \<Rightarrow> string \<Rightarrow> 't \<Rightarrow> 't"
  activation_fn :: "string \<Rightarrow> 't \<Rightarrow> 't"
  max_pooling :: "nat \<times> nat \<Rightarrow> 't \<Rightarrow> 't"
  dropout_fn :: "fp \<Rightarrow> 't \<Rightarrow> 't"
  flatten_fn :: "'t \<Rightarrow> 't"
  dense_fn :: "'w \<Rightarrow> nat \<Rightarrow> 't \<Rightarrow> 't"

fun activate :: "('t, 'w) backend \<Rightarrow> string option \<Rightarrow> 't \<Rightarrow> 't" where
  "activate B None v = v"
| "activate B (Some a) v = activation_fn B a v"

text \<open>
  Calling a layer. The weights are those of the layers that have any, in the order of the
  network: the state paired with the tensor counts the weighted layers passed so far, and
  \<open>W k\<close> are the weights of the next one.
\<close>

fun call_layer :: "('t, 'w) backend \<Rightarrow> (nat \<Rightarrow> 'w) \<Rightarrow> layer \<Rightarrow> nat \<times> 't \<Rightarrow> nat \<times> 't" where
  "call_layer B W (Convolution2D nb_filter nb_row nb_col border_mode activation input_shape) (k, v) =
     (Suc k, activate B activation
        (conv2d B (W k) nb_filter nb_row nb_col
           (case border_mode of None \<Rightarrow> ''valid'' | Some b \<Rightarrow> b) v))"
| "call_layer B W (Activation a) (k, v) = (k, activation_fn B a v)"
| "call_layer B W (MaxPooling2D pool_size) (k, v) = (k, max_pooling B pool_size v)"
| "call_layer B W (Dropout p) (k, v) = (k, dropout_fn B p v)"
| "call_layer B W Flatten (k, v) = (k, flatten_fn B v)"
| "call_layer B W (Dense output_dim activation) (k, v) =
     (Suc k, activate B activation (dense_fn B (W k) output_dim v))"

text \<open>
  The value of a symbolic tensor when the tensor \<open>tin\<close> is fed \<open>v\<close>: none if the tensor
  does not descend from \<open>tin\<close>.
\<close>

fun eval_tensor ::
  "('t, 'w) backend \<Rightarrow> (nat \<Rightarrow> 'w) \<Rightarrow> tensor \<Rightarrow> 't \<Rightarrow> tensor \<Rightarrow> (nat \<times> 't) option" where
  "eval_tensor B W tin v (Input sh) = (if Input sh = tin then Some (0, v) else None)"
| "eval_tensor B W tin v (Apply l u) =
     (if Apply l u = tin then Some (0, v)
      else map_option (call_layer B W l) (eval_tensor B W tin v u))"

fun predict :: "('t, 'w) backend \<Rightarrow> (nat \<Rightarrow> 'w) \<Rightarrow> model \<Rightarrow> 't \<Rightarrow> 't option" where
  "predict B W (Sequential ls) v = Some (snd (foldl (\<lambda>kv l. call_layer B W l kv) (0, v) ls))"
| "predict B W (Model tin tout) v = map_option snd (eval_tensor B W tin v tout)"

text \<open>The input shape a model declares, on its first layer or on its input tensor.\<close>

fun declared_input :: "model \<Rightarrow> nat list option" where
  "declared_input (Sequential (Convolution2D f r c b a sh # ls)) = sh"
| "declared_input (Sequential ls) = None"
| "declared_input (Model (Input sh) tout) = Some sh"
| "declared_input (Model tin tout) = None"

section \<open>What the generator does to an image\<close>

text \<open>
  The arguments of \<^verbatim>\<open>ImageDataGenerator\<close> as the comments of lines 342 to 351 explain
  them: each switch that is set and each range that is not zero is one thing the generator
  may do to an image, a shift being drawn within the given fraction of the width or
  height.
\<close>

datatype transformation =
    FeaturewiseCenter
  | SamplewiseCenter
  | FeaturewiseStdNormalization
  | SamplewiseStdNormalization
  | ZCAWhitening
  | Rotation int
  | WidthShift fp
  | HeightShift fp
  | HorizontalFlip
  | VerticalFlip

definition transformations :: "image_data_generator \<Rightarrow> transformation list" where
  "transformations g =
     (if featurewise_center g then [FeaturewiseCenter] else []) @
     (if samplewise_center g then [SamplewiseCenter] else []) @
     (if featurewise_std_normalization g then [FeaturewiseStdNormalization] else []) @
     (if samplewise_std_normalization g then [SamplewiseStdNormalization] else []) @
     (if zca_whitening g then [ZCAWhitening] else []) @
     (if rotation_range g = 0 then [] else [Rotation (rotation_range g)]) @
     (if width_shift_range g = Finite 0 then [] else [WidthShift (width_shift_range g)]) @
     (if height_shift_range g = Finite 0 then [] else [HeightShift (height_shift_range g)]) @
     (if horizontal_flip g then [HorizontalFlip] else []) @
     (if vertical_flip g then [VerticalFlip] else [])"

section \<open>A sample run\<close>

text \<open>
  A state before any cell has run. No cell reads a name before assigning it, so what the
  fields hold here is never looked at.
\<close>

definition blank :: env where
  "blank = \<lparr>nb_classes = 0, img_rows = 0, img_cols = 0, img_channels = 0,
     X_train = UInt8 (NDArray [] []), y_train = NDArray [] [],
     X_test = UInt8 (NDArray [] []), y_test = NDArray [] [],
     Y_train = NDArray [] [], Y_test = NDArray [] [],
     model = Sequential [], model_in = Input [], x_t = Input [], model_out = Input [],
     sgd = \<lparr>lr = Finite 0, decay = Finite 0, momentum = Finite 0, nesterov = False\<rparr>,
     batch_size = 0, nb_epoch = 0, data_augmentation = False,
     datagen = \<lparr>featurewise_center = False, samplewise_center = False,
       featurewise_std_normalization = False, samplewise_std_normalization = False,
       zca_whitening = False, rotation_range = 0, width_shift_range = Finite 0,
       height_shift_range = Finite 0, horizontal_flip = False, vertical_flip = False\<rparr>,
     stdout = [], calls = []\<rparr>"

text \<open>A dataset of two training images and one test image of 32 by 32 pixels in 3 channels.\<close>

definition sample_dataset :: dataset where
  "sample_dataset =
     ((UInt8 (NDArray [2, 32, 32, 3] (replicate 6144 128)), NDArray [2, 1] [3, 9]),
      (UInt8 (NDArray [1, 32, 32, 3] (replicate 3072 255)), NDArray [1, 1] [0]))"

section \<open>Facts about the floating-point model\<close>

text \<open>Powers of two with integer exponents, and the rounding of a rational to an integer.\<close>

lemma powi_nonneg: "0 \<le> k \<Longrightarrow> (2::rat) powi k = 2 ^ nat k"
  by (simp add: power_int_def)

lemma powi_neg: "0 \<le> k \<Longrightarrow> (2::rat) powi (- k) = 1 / 2 ^ nat k"
  by (simp only: power_int_minus_divide powi_nonneg)

lemma powi_mono: "a \<le> b \<Longrightarrow> (2::rat) powi a \<le> 2 powi b"
  by (rule power_int_increasing) simp_all

lemma round_half_even_close: "\<bar>of_int (round_half_even r) - r\<bar> \<le> 1 / 2"
proof -
  have "of_int \<lfloor>r\<rfloor> \<le> r" "r < of_int \<lfloor>r\<rfloor> + 1" by linarith+
  then show ?thesis
    unfolding round_half_even_def Let_def by (simp add: abs_if) linarith
qed

lemma round_half_even_le: "r \<le> of_int n \<Longrightarrow> round_half_even r \<le> n"
proof -
  assume a: "r \<le> of_int n"
  have f: "\<lfloor>r\<rfloor> \<le> n" using a by (simp add: floor_le_iff; linarith)
  show ?thesis
  proof (cases "\<lfloor>r\<rfloor> = n")
    case True
    then have "r = of_int n" using a by (metis of_int_floor_le order_antisym)
    then show ?thesis by (simp add: round_half_even_def)
  next
    case False
    with f have "\<lfloor>r\<rfloor> + 1 \<le> n" by simp
    then show ?thesis by (auto simp: round_half_even_def Let_def)
  qed
qed

lemma round_half_even_nonneg: "0 \<le> r \<Longrightarrow> 0 \<le> round_half_even r"
  by (auto simp: round_half_even_def Let_def)

lemma round_half_even_of_int: "round_half_even (of_int k) = k"
  by (simp add: round_half_even_def)

text \<open>The exponent that \<open>ilog2\<close> finds is the one the rounding needs.\<close>

lemma ilog2_bounds:
  assumes "0 < r"
  shows "2 powi (ilog2 r) \<le> r \<and> r < 2 powi (ilog2 r + 1)"
proof (cases "1 \<le> r")
  case True
  define n where "n = \<lfloor>r\<rfloor>"
  have n1: "1 \<le> n" using True by (simp add: n_def)
  then have b1: "1 \<le> bitlen n" by (simp add: bitlen_alt_def)
  from bitlen_bounds [of n] n1
  have lo: "2 ^ nat (bitlen n - 1) \<le> n" and hi: "n < 2 ^ nat (bitlen n)" by auto
  have e: "ilog2 r = bitlen n - 1" using True by (simp add: ilog2_def n_def)
  have "(2::rat) powi (bitlen n - 1) = 2 ^ nat (bitlen n - 1)"
    using b1 by (intro powi_nonneg) simp
  also have "\<dots> = of_int (2 ^ nat (bitlen n - 1))" by simp
  also have "\<dots> \<le> of_int n" using lo by (simp only: of_int_le_iff)
  also have "\<dots> \<le> r" by (simp add: n_def)
  finally have A: "2 powi (ilog2 r) \<le> r" by (simp add: e)
  have "n + 1 \<le> 2 ^ nat (bitlen n)" using hi by simp
  then have "(of_int (n + 1) :: rat) \<le> of_int (2 ^ nat (bitlen n))" by (simp only: of_int_le_iff)
  also have "\<dots> = 2 ^ nat (bitlen n)" by simp
  finally have "(of_int (n + 1) :: rat) \<le> 2 ^ nat (bitlen n)" .
  moreover have "r < of_int (n + 1)" unfolding n_def by linarith
  ultimately have "r < 2 ^ nat (bitlen n)" by (rule less_le_trans [rotated])
  also have "\<dots> = 2 powi (bitlen n)" using b1 by (intro powi_nonneg [symmetric]) simp
  finally have B: "r < 2 powi (ilog2 r + 1)" by (simp add: e)
  from A B show ?thesis by simp
next
  case False
  define y where "y = 1 / r"
  define m where "m = \<lceil>y\<rceil> - 1"
  have y1: "1 < y" using False assms by (simp add: y_def)
  then have "2 \<le> \<lceil>y\<rceil>" by (simp add: le_ceiling_iff)
  then have m1: "1 \<le> m" by (simp add: m_def)
  then have b1: "1 \<le> bitlen m" by (simp add: bitlen_alt_def)
  from bitlen_bounds [of m] m1
  have lo: "2 ^ nat (bitlen m - 1) \<le> m" and hi: "m < 2 ^ nat (bitlen m)" by auto
  have e: "ilog2 r = - bitlen m" using False by (simp add: ilog2_def m_def y_def)
  have my: "of_int m < y" unfolding m_def by linarith
  have ym: "y \<le> of_int (m + 1)" unfolding m_def by linarith
  have "m + 1 \<le> 2 ^ nat (bitlen m)" using hi by simp
  then have "(of_int (m + 1) :: rat) \<le> of_int (2 ^ nat (bitlen m))" by (simp only: of_int_le_iff)
  also have "\<dots> = 2 ^ nat (bitlen m)" by simp
  finally have yhi: "y \<le> 2 ^ nat (bitlen m)" using ym by simp
  have "(2::rat) ^ nat (bitlen m - 1) = of_int (2 ^ nat (bitlen m - 1))" by simp
  also have "\<dots> \<le> of_int m" using lo by (simp only: of_int_le_iff)
  also have "\<dots> < y" by (rule my)
  finally have ylo: "2 ^ nat (bitlen m - 1) < y" .
  have ry: "1 / y = r" by (simp add: y_def)
  have ypos: "0 < y" using y1 by simp
  have "(2::rat) powi (- bitlen m) = 1 / 2 ^ nat (bitlen m)"
    using b1 by (intro powi_neg) simp
  also have "\<dots> \<le> 1 / y" using yhi ypos by (simp add: frac_le)
  finally have A: "2 powi (ilog2 r) \<le> r" by (simp only: e ry)
  have "1 / y < 1 / 2 ^ nat (bitlen m - 1)" using ylo by (simp add: frac_less2)
  also have "\<dots> = (2::rat) powi (- (bitlen m - 1))"
    using b1 by (intro powi_neg [symmetric]) simp
  also have "- (bitlen m - 1) = - bitlen m + 1" by simp
  finally have B: "r < 2 powi (ilog2 r + 1)" by (simp only: e ry)
  from A B show ?thesis by simp
qed

lemma ilog2_less_one: "0 < r \<Longrightarrow> r < 1 \<Longrightarrow> ilog2 r \<le> - 1"
proof -
  assume "0 < r" "r < 1"
  then have "1 < 1 / r" by simp
  then have "2 \<le> \<lceil>1 / r\<rceil>" by (simp add: le_ceiling_iff)
  then have "1 \<le> bitlen (\<lceil>1 / r\<rceil> - 1)" by (simp add: bitlen_alt_def)
  with \<open>r < 1\<close> show ?thesis by (simp add: ilog2_def)
qed

text \<open>
  Rounding to binary32 keeps a number of the unit interval there and moves it by at most
  half a unit in the last place, which below 1 is at most \<open>2^-25\<close>; a natural number below
  \<open>2^24\<close> is a binary32 value.
\<close>

lemma float32_one: "float32 1 = Finite 1"
  by code_simp

lemma float32_255: "float32 255 = Finite 255"
  by code_simp

lemma float32_unit_interval:
  assumes "0 \<le> r" and "r \<le> 1"
  shows "\<exists>v. float32 r = Finite v \<and> 0 \<le> v \<and> v \<le> 1 \<and> \<bar>v - r\<bar> \<le> 1 / 2 ^ 25"
proof -
  consider "r = 0" | "r = 1" | "0 < r" "r < 1" using assms by fastforce
  then show ?thesis
  proof cases
    case 1
    then show ?thesis by (simp add: float32_def float_round_def)
  next
    case 2
    then show ?thesis by (simp add: float32_one)
  next
    case 3
    define e where "e = max (ilog2 r) (- 126)"
    define k where "k = nat (23 - e)"
    define q where "q = (2::rat) powi (e - int 24 + 1)"
    define m where "m = round_half_even (r / q)"
    have e: "e \<le> - 1" using ilog2_less_one [OF 3] by (simp add: e_def)
    have k: "24 \<le> k" using e by (simp add: k_def)
    have "e - int 24 + 1 = - int k" using e by (simp add: k_def)
    then have q: "q = 1 / 2 ^ k" using powi_neg [of "int k"] by (simp add: q_def)
    have qpos: "0 < q" by (simp add: q)
    have rq: "r / q = r * 2 ^ k" by (simp add: q)
    have "r / q \<le> of_int (2 ^ k)" using 3 by (simp add: rq)
    then have mle: "m \<le> 2 ^ k" unfolding m_def by (rule round_half_even_le)
    have "0 \<le> r / q" using 3 qpos by simp
    then have mge: "0 \<le> m" unfolding m_def by (rule round_half_even_nonneg)
    define v where "v = of_int m * q"
    have v0: "0 \<le> v" using mge qpos by (simp add: v_def)
    have "of_int m \<le> (2::rat) ^ k" using mle by (metis of_int_le_iff of_int_numeral of_int_power)
    then have v1: "v \<le> 1" by (simp add: v_def q divide_le_eq)
    have "\<bar>of_int m - r / q\<bar> \<le> 1 / 2" unfolding m_def by (rule round_half_even_close)
    then have "\<bar>of_int m - r / q\<bar> * q \<le> 1 / 2 * q" using qpos by (simp only: mult_le_cancel_right_pos)
    moreover have "\<bar>of_int m - r / q\<bar> * q = \<bar>v - r\<bar>"
    proof -
      have "(of_int m - r / q) * q = v - r" using qpos by (simp add: v_def left_diff_distrib)
      then have "\<bar>v - r\<bar> = \<bar>of_int m - r / q\<bar> * \<bar>q\<bar>" by (simp only: abs_mult [symmetric])
      then show ?thesis using qpos by simp
    qed
    moreover have "1 / 2 * q \<le> 1 / 2 ^ 25"
    proof -
      have "(2::rat) ^ 25 \<le> 2 ^ Suc k" using k by (intro power_increasing) auto
      then have "1 / (2::rat) ^ Suc k \<le> 1 / 2 ^ 25" by (intro divide_left_mono) auto
      then show ?thesis by (simp add: q)
    qed
    ultimately have close: "\<bar>v - r\<bar> \<le> 1 / 2 ^ 25" by simp
    have "\<not> (2::rat) powi (127 + 1) \<le> v" using v1 by (simp add: powi_nonneg)
    moreover have "float32 r = (if 2 powi (127 + 1) \<le> v then Infinity (r < 0) else Finite (sgn r * v))"
      unfolding float32_def float_round_def Let_def v_def m_def q_def e_def using 3 by simp
    ultimately have "float32 r = Finite v" using 3 by simp
    with v0 v1 close show ?thesis by blast
  qed
qed

lemma float32_of_nat:
  assumes "n < 2 ^ 24"
  shows "float32 (of_nat n) = Finite (of_nat n)"
proof (cases "n = 0")
  case True
  then show ?thesis by (simp add: float32_def float_round_def)
next
  case False
  define r :: rat where "r = of_nat n"
  have rpos: "0 < r" and r1: "1 \<le> r" using False by (simp_all add: r_def)
  have rlt: "r < 2 ^ 24" using assms unfolding r_def
    by (metis of_nat_less_iff of_nat_numeral of_nat_power)
  define e0 where "e0 = ilog2 r"
  from ilog2_bounds [OF rpos]
  have lo: "2 powi e0 \<le> r" and hi: "r < 2 powi (e0 + 1)" by (simp_all add: e0_def)
  have e0_ge: "0 \<le> e0"
  proof (rule ccontr)
    assume "\<not> 0 \<le> e0"
    then have "e0 + 1 \<le> 0" by simp
    then have "(2::rat) powi (e0 + 1) \<le> 2 powi 0" by (rule powi_mono)
    with hi r1 show False by simp
  qed
  have e0_lt: "e0 < 24"
  proof (rule ccontr)
    assume "\<not> e0 < 24"
    then have "24 \<le> e0" by simp
    then have "(2::rat) powi 24 \<le> 2 powi e0" by (rule powi_mono)
    with lo rlt show False by simp
  qed
  define k where "k = nat (23 - e0)"
  define q where "q = (2::rat) powi (max e0 (- 126) - int 24 + 1)"
  have "max e0 (- 126) - int 24 + 1 = - int k" using e0_ge e0_lt by (simp add: k_def)
  then have q: "q = 1 / 2 ^ k" using powi_neg [of "int k"] by (simp add: q_def)
  have "r / q = of_int (int n * 2 ^ k)" by (simp add: q r_def)
  then have m: "round_half_even (r / q) = int n * 2 ^ k" by (simp only: round_half_even_of_int)
  have v: "of_int (round_half_even (r / q)) * q = r" by (simp add: m) (simp add: q r_def)
  have "\<not> (2::rat) powi (127 + 1) \<le> r" using rlt by (simp add: powi_nonneg)
  moreover have "float32 r =
      (if 2 powi (127 + 1) \<le> of_int (round_half_even (r / q)) * q then Infinity (r < 0)
       else Finite (sgn r * (of_int (round_half_even (r / q)) * q)))"
    unfolding float32_def float_round_def Let_def q_def e0_def using rpos by simp
  ultimately have "float32 r = Finite r" using rpos by (simp add: v)
  then show ?thesis by (simp add: r_def)
qed

text \<open>Line 80 on a \<^verbatim>\<open>uint8\<close> array: each pixel \<open>p\<close> becomes the binary32 value of \<open>p / 255\<close>.\<close>

lemma unat_word8_bound: "unat (p :: 8 word) < 256"
proof -
  have "unat p < 2 ^ LENGTH(8)" by (rule unsigned_less)
  then show ?thesis by simp
qed

lemma normalized_pixel:
  "fp_div float32 (float32 (of_nat (unat (p :: 8 word)))) (float32 (of_nat 255)) =
     float32 (of_nat (unat p) / 255)"
proof -
  have "unat p < 2 ^ 24" using unat_word8_bound [of p] by simp
  then have "float32 (of_nat (unat p)) = Finite (of_nat (unat p))" by (rule float32_of_nat)
  then show ?thesis by (simp add: float32_255)
qed

lemma normalize_uint8:
  "true_divide (astype_float32 (UInt8 (NDArray sh ps))) 255 =
     Float32 (NDArray sh (map (\<lambda>p. float32 (of_nat (unat p) / 255)) ps))"
  using normalized_pixel by (simp add: comp_def)

lemma normalized_pixel_range:
  "\<exists>v. float32 (of_nat (unat (p :: 8 word)) / 255) = Finite v \<and> 0 \<le> v \<and> v \<le> 1 \<and>
       \<bar>v - of_nat (unat p) / 255\<bar> \<le> 1 / 2 ^ 25"
proof (rule float32_unit_interval)
  show "(0::rat) \<le> of_nat (unat p) / 255" by (intro divide_nonneg_nonneg of_nat_0_le_iff) simp
  have "unat p \<le> 255" using unat_word8_bound [of p] by simp
  then have "(of_nat (unat p) :: rat) \<le> of_nat 255" by (simp only: of_nat_le_iff)
  then show "(of_nat (unat p) :: rat) / 255 \<le> 1" by simp
qed

lemma pixel_one: "float32 (1 / 255) = Finite (8421505 / 2147483648)"
  by code_simp

lemma py_float_tenth: "py_float (1 / 10) = Finite (3602879701896397 / 36028797018963968)"
  by code_simp

section \<open>Facts about one-hot vectors\<close>

lemma one_hot_entries:
  assumes "t < n"
  shows "length (one_hot n t) = n \<and> one_hot n t ! t = Finite 1 \<and>
         (\<forall>i<n. i \<noteq> t \<longrightarrow> one_hot n t ! i = Finite 0)"
  using assms by (simp add: one_hot_def)

lemma one_hot_3: "one_hot 10 3 =
  [Finite 0, Finite 0, Finite 0, Finite 1, Finite 0, Finite 0, Finite 0, Finite 0, Finite 0, Finite 0]"
  by (simp add: one_hot_def eval_nat_numeral)

lemma one_hot_9: "one_hot 10 9 =
  [Finite 0, Finite 0, Finite 0, Finite 0, Finite 0, Finite 0, Finite 0, Finite 0, Finite 0, Finite 1]"
  by (simp add: one_hot_def eval_nat_numeral)

section \<open>Facts about runs\<close>

text \<open>A run that ends normally is the run against the library that never raises.\<close>

lemma run_Inr_never: "run R p s = Inr s' \<Longrightarrow> run never p s = Inr s'"
proof (induction p arbitrary: s s')
  case Skip
  then show ?case by simp
next
  case (Call l f)
  then show ?case by (simp add: never_def split: option.splits)
next
  case (Seq p q)
  then show ?case by (auto split: sum.splits)
next
  case (IfElse b p q)
  then show ?case by (simp split: if_splits)
qed

lemma run_block_Inr:
  assumes "run R (block (p # ps)) s = Inr s'"
  obtains t where "run R p s = Inr t" and "run R (block ps) t = Inr s'"
  using assms by (auto split: sum.splits)

text \<open>A raising statement ends the run, and no line is started twice.\<close>

lemma reach_raise:
  "(l, t) \<in> set (reach R p s) \<Longrightarrow> R l t = Some e \<Longrightarrow>
     run R p s = Inl (Raised e) \<and> last (reach R p s) = (l, t)"
proof (induction p arbitrary: s)
  case Skip
  then show ?case by simp
next
  case (Call k f)
  then show ?case by simp
next
  case (Seq p q)
  show ?case
  proof (cases "(l, t) \<in> set (reach R p s)")
    case True
    from Seq.IH(1) [OF True Seq.prems(2)] show ?thesis by simp
  next
    case False
    show ?thesis
    proof (cases "run R p s")
      case (Inl x)
      with False Seq.prems(1) show ?thesis by simp
    next
      case (Inr u)
      with False Seq.prems(1) have m: "(l, t) \<in> set (reach R q u)" by simp
      from m have "reach R q u \<noteq> []" by auto
      with Seq.IH(2) [OF m Seq.prems(2)] Inr show ?thesis by simp
    qed
  qed
next
  case (IfElse b p q)
  then show ?case by (simp split: if_splits)
qed

lemma reach_lines: "set (map fst (reach R p s)) \<subseteq> set (lines p)"
proof (induction p arbitrary: s)
  case (Seq p q)
  show ?case
  proof (cases "run R p s")
    case (Inl e)
    with Seq.IH(1) [of s] show ?thesis by auto
  next
    case (Inr u)
    with Seq.IH(1) [of s] Seq.IH(2) [of u] show ?thesis by auto
  qed
next
  case (IfElse b p q)
  from IfElse.IH(1) [of s] IfElse.IH(2) [of s] show ?case by auto
qed simp_all

lemma reach_distinct: "distinct (lines p) \<Longrightarrow> distinct (map fst (reach R p s))"
proof (induction p arbitrary: s)
  case (Seq p q)
  from Seq.prems have dp: "distinct (lines p)" and dq: "distinct (lines q)"
    and dj: "set (lines p) \<inter> set (lines q) = {}" by simp_all
  show ?case
  proof (cases "run R p s")
    case (Inl e)
    with Seq.IH(1) [OF dp, of s] show ?thesis by simp
  next
    case (Inr u)
    from reach_lines [of R p s] reach_lines [of R q u] dj
    have "set (map fst (reach R p s)) \<inter> set (map fst (reach R q u)) = {}" by blast
    with Seq.IH(1) [OF dp, of s] Seq.IH(2) [OF dq, of u] Inr show ?thesis by simp
  qed
next
  case (IfElse b p q)
  from IfElse.prems have "distinct (lines p)" "distinct (lines q)" by simp_all
  with IfElse.IH(1) [of s] IfElse.IH(2) [of s] show ?case by simp
qed simp_all

lemma notebook_lines_distinct: "distinct (lines (notebook D))"
  by (simp add: notebook_def cell1_def cell2_def cell3_def cell4_def cell5_def cell6_def cell7_def)

section \<open>What each cell does\<close>

lemma cell1_Inr:
  assumes "run R (cell1 D) s = Inr t"
  shows "nb_classes t = 10 \<and>
         X_train t = true_divide (astype_float32 (fst (fst D))) 255 \<and>
         X_test t = true_divide (astype_float32 (fst (snd D))) 255 \<and>
         \<not> list_ex (\<lambda>l. 10 \<le> l) (flat (snd (fst D))) \<and>
         \<not> list_ex (\<lambda>l. 10 \<le> l) (flat (snd (snd D))) \<and>
         Y_train t = NDArray [length (flat (snd (fst D))), 10]
                       (concat (map (one_hot 10) (flat (snd (fst D))))) \<and>
         Y_test t = NDArray [length (flat (snd (snd D))), 10]
                       (concat (map (one_hot 10) (flat (snd (snd D))))) \<and>
         calls t = calls s"
  using run_Inr_never [OF assms]
  by (auto simp: cell1_def never_def bind_exn_def shape0_def to_categorical_def
           split: sum.splits list.splits if_splits)

lemma cell2_never:
  "run never cell2 s = Inr (s\<lparr>model := Sequential
     [Convolution2D 32 3 3 (Some ''same'') None (Some (drop 1 (dims (X_train s)))),
      Activation ''relu'',
      Convolution2D 32 3 3 None None None,
      Activation ''relu'',
      MaxPooling2D (2, 2),
      Dropout (py_float (25 / 100)),
      Convolution2D 64 3 3 (Some ''same'') None None,
      Activation ''relu'',
      Convolution2D 64 3 3 None None None,
      Activation ''relu'',
      MaxPooling2D (2, 2),
      Dropout (py_float (25 / 100)),
      Flatten,
      Dense 512 None,
      Activation ''relu'',
      Dropout (py_float (5 / 10)),
      Dense (nb_classes s) None,
      Activation ''softmax'']\<rparr>)"
  by (simp add: cell2_def add_def never_def)

lemma cell2_Inr:
  assumes "run R cell2 s = Inr t"
  shows "t = s\<lparr>model := Sequential
     [Convolution2D 32 3 3 (Some ''same'') None (Some (drop 1 (dims (X_train s)))),
      Activation ''relu'',
      Convolution2D 32 3 3 None None None,
      Activation ''relu'',
      MaxPooling2D (2, 2),
      Dropout (py_float (25 / 100)),
      Convolution2D 64 3 3 (Some ''same'') None None,
      Activation ''relu'',
      Convolution2D 64 3 3 None None None,
      Activation ''relu'',
      MaxPooling2D (2, 2),
      Dropout (py_float (25 / 100)),
      Flatten,
      Dense 512 None,
      Activation ''relu'',
      Dropout (py_float (5 / 10)),
      Dense (nb_classes s) None,
      Activation ''softmax'']\<rparr>"
  using run_Inr_never [OF assms] by (simp add: cell2_never)

lemma cell3_Inr:
  assumes "run R cell3 s = Inr t"
  shows "t = s\<lparr>
     model_in := Input (drop 1 (dims (X_train s))),
     x_t :=
          Apply (Dense (nb_classes s) None)
          (Apply (Dropout (py_float (5 / 10)))
          (Apply (Dense 512 (Some ''relu''))
          (Apply Flatten
          (Apply (Dropout (py_float (25 / 100)))
          (Apply (MaxPooling2D (2, 2))
          (Apply (Convolution2D 64 3 3 None (Some ''relu'') None)
          (Apply (Convolution2D 64 3 3 (Some ''same'') (Some ''relu'') None)
          (Apply (Dropout (py_float (25 / 100)))
          (Apply (MaxPooling2D (2, 2))
          (Apply (Convolution2D 32 3 3 None (Some ''relu'') None)
          (Apply (Convolution2D 32 3 3 (Some ''same'') (Some ''relu'') None)
          (Input (drop 1 (dims (X_train s))))))))))))))),
     model_out :=
          Apply (Activation ''softmax'')
          (Apply (Dense (nb_classes s) None)
          (Apply (Dropout (py_float (5 / 10)))
          (Apply (Dense 512 (Some ''relu''))
          (Apply Flatten
          (Apply (Dropout (py_float (25 / 100)))
          (Apply (MaxPooling2D (2, 2))
          (Apply (Convolution2D 64 3 3 None (Some ''relu'') None)
          (Apply (Convolution2D 64 3 3 (Some ''same'') (Some ''relu'') None)
          (Apply (Dropout (py_float (25 / 100)))
          (Apply (MaxPooling2D (2, 2))
          (Apply (Convolution2D 32 3 3 None (Some ''relu'') None)
          (Apply (Convolution2D 32 3 3 (Some ''same'') (Some ''relu'') None)
          (Input (drop 1 (dims (X_train s)))))))))))))))),
     model := Model (Input (drop 1 (dims (X_train s))))
         (
          Apply (Activation ''softmax'')
          (Apply (Dense (nb_classes s) None)
          (Apply (Dropout (py_float (5 / 10)))
          (Apply (Dense 512 (Some ''relu''))
          (Apply Flatten
          (Apply (Dropout (py_float (25 / 100)))
          (Apply (MaxPooling2D (2, 2))
          (Apply (Convolution2D 64 3 3 None (Some ''relu'') None)
          (Apply (Convolution2D 64 3 3 (Some ''same'') (Some ''relu'') None)
          (Apply (Dropout (py_float (25 / 100)))
          (Apply (MaxPooling2D (2, 2))
          (Apply (Convolution2D 32 3 3 None (Some ''relu'') None)
          (Apply (Convolution2D 32 3 3 (Some ''same'') (Some ''relu'') None)
          (Input (drop 1 (dims (X_train s)))))))))))))))))\<rparr>"
  using run_Inr_never [OF assms] by (simp add: cell3_def never_def)

lemma cell4_Inr:
  assumes "run R cell4 s = Inr t"
  shows "t = s\<lparr>calls := calls s @ [Summary (model s)],
               stdout := stdout s @ [Print [PSummary (model s)], Print [PNone]]\<rparr>"
  using run_Inr_never [OF assms] by (simp add: cell4_def never_def)

lemma cell5_Inr:
  assumes "run R cell5 s = Inr t"
  shows "t = s\<lparr>sgd := \<lparr>lr = py_float (1 / 100), decay = py_float (1 / 10 ^ 6),
              momentum = py_float (9 / 10), nesterov = True\<rparr>,
               calls := calls s @ [Compile (model s) ''categorical_crossentropy''
                 \<lparr>lr = py_float (1 / 100), decay = py_float (1 / 10 ^ 6),
              momentum = py_float (9 / 10), nesterov = True\<rparr> [''accuracy'']]\<rparr>"
  using run_Inr_never [OF assms] by (simp add: cell5_def never_def)

lemma cell6_Inr:
  assumes "run R cell6 s = Inr t"
  shows "t = s\<lparr>batch_size := 128, nb_epoch := 200, data_augmentation := True\<rparr>"
  using run_Inr_never [OF assms] by (simp add: cell6_def never_def)

lemma cell7_plain_Inr:
  assumes "run R cell7 s = Inr t" and "\<not> data_augmentation s"
  shows "t = s\<lparr>stdout := stdout s @ [Print [PStr ''Not using data augmentation.'']],
               calls := calls s @
                 [Fit (model s) (X_train s) (Y_train s) (batch_size s) (nb_epoch s)
                    (X_test s, Y_test s) True]\<rparr>"
  using run_Inr_never [OF assms(1)] assms(2) by (simp add: cell7_def never_def)

lemma cell7_augmented_Inr:
  assumes "run R cell7 s = Inr t" and "data_augmentation s"
  shows "\<exists>n rest. dims (X_train s) = n # rest \<and>
     t = s\<lparr>stdout := stdout s @ [Print [PStr ''Using real-time data augmentation.'']],
            datagen := \<lparr>featurewise_center = False, samplewise_center = False,
              featurewise_std_normalization = False, samplewise_std_normalization = False,
              zca_whitening = False, rotation_range = 0,
              width_shift_range = py_float (1 / 10), height_shift_range = py_float (1 / 10),
              horizontal_flip = True, vertical_flip = False\<rparr>,
            calls := calls s @
              [DatagenFit \<lparr>featurewise_center = False, samplewise_center = False,
              featurewise_std_normalization = False, samplewise_std_normalization = False,
              zca_whitening = False, rotation_range = 0,
              width_shift_range = py_float (1 / 10), height_shift_range = py_float (1 / 10),
              horizontal_flip = True, vertical_flip = False\<rparr> (X_train s),
               FitGenerator (model s)
                 (Flow \<lparr>featurewise_center = False, samplewise_center = False,
              featurewise_std_normalization = False, samplewise_std_normalization = False,
              zca_whitening = False, rotation_range = 0,
              width_shift_range = py_float (1 / 10), height_shift_range = py_float (1 / 10),
              horizontal_flip = True, vertical_flip = False\<rparr> (X_train s) (Y_train s) (batch_size s))
                 n (nb_epoch s) (X_test s, Y_test s)]\<rparr>"
  using run_Inr_never [OF assms(1)] assms(2)
  by (auto simp: cell7_def never_def bind_exn_def shape0_def split: sum.splits list.splits)

section \<open>The sample run\<close>

lemma sample_cell1:
  "\<exists>s. run never (cell1 sample_dataset) blank = Inr s"
  by (simp add: cell1_def never_def bind_exn_def shape0_def to_categorical_def
        sample_dataset_def blank_def)

lemma sample_cells_1_2:
  "\<exists>s. run never (block [cell1 sample_dataset, cell2]) blank = Inr s \<and>
       dims (X_train s) = [2, 32, 32, 3]"
  by (simp add: cell1_def cell2_def add_def never_def bind_exn_def shape0_def to_categorical_def
        sample_dataset_def blank_def)

lemma sample_cells_2_3:
  "\<exists>s2 s3. run never cell2 (blank\<lparr>nb_classes := 10, X_train := fst (fst sample_dataset)\<rparr>) = Inr s2 \<and> run never cell3 s2 = Inr s3"
  by (simp add: cell2_def cell3_def add_def never_def blank_def sample_dataset_def)

lemma sample_training:
  "\<exists>s' t t'.
     run never (block [cell6, cell7]) (blank\<lparr>X_train := fst (fst sample_dataset)\<rparr>) = Inr s' \<and>
     run never cell6 (blank\<lparr>X_train := fst (fst sample_dataset)\<rparr>) = Inr t \<and>
     run never cell7 (t\<lparr>data_augmentation := False\<rparr>) = Inr t'"
  by (simp add: cell6_def cell7_def never_def bind_exn_def shape0_def sample_dataset_def blank_def)

lemma sample_augmented:
  "\<exists>s'. run never cell7
     (blank\<lparr>X_train := fst (fst sample_dataset), data_augmentation := True\<rparr>) = Inr s'"
  by (simp add: cell7_def never_def bind_exn_def shape0_def sample_dataset_def blank_def)

lemma sample_notebook: "\<exists>s. run never (notebook sample_dataset) blank = Inr s"
  by (simp add: notebook_def cell1_def cell2_def cell3_def cell4_def cell5_def cell6_def
        cell7_def add_def never_def bind_exn_def shape0_def to_categorical_def
        sample_dataset_def blank_def)

section \<open>The claims\<close>

subsection \<open>The layers of the sequential model\<close>

text \<open>
  Claim C1. After cells 1 and 2 the name \<^verbatim>\<open>model\<close> holds a \<^verbatim>\<open>Sequential\<close> of exactly
  eighteen layers in this order: convolution, activation, convolution, activation, pooling,
  dropout with 32 filters, the same six with 64 filters, then flatten, a dense layer of 512
  units, activation, dropout, a dense layer of 10 units and the softmax activation. The
  first layer carries the input shape, the shape of the training images without its
  first axis.
\<close>

theorem sequential_model_layers:
  assumes "run R (block [cell1 D, cell2]) s0 = Inr s"
  shows "model s = Sequential
     [Convolution2D 32 3 3 (Some ''same'') None (Some (drop 1 (dims (X_train s)))),
      Activation ''relu'',
      Convolution2D 32 3 3 None None None,
      Activation ''relu'',
      MaxPooling2D (2, 2),
      Dropout (py_float (25 / 100)),
      Convolution2D 64 3 3 (Some ''same'') None None,
      Activation ''relu'',
      Convolution2D 64 3 3 None None None,
      Activation ''relu'',
      MaxPooling2D (2, 2),
      Dropout (py_float (25 / 100)),
      Flatten,
      Dense 512 None,
      Activation ''relu'',
      Dropout (py_float (5 / 10)),
      Dense 10 None,
      Activation ''softmax'']"
proof -
  from assms obtain t where t: "run R (cell1 D) s0 = Inr t" and "run R (block [cell2]) t = Inr s"
    by (rule run_block_Inr)
  then have s: "run R cell2 t = Inr s" by (auto split: sum.splits)
  from cell1_Inr [OF t] have "nb_classes t = 10" by simp
  with cell2_Inr [OF s] show ?thesis by simp
qed

theorem sequential_model_layers_witness:
  "\<exists>s. run (never :: nat \<Rightarrow> env \<Rightarrow> string option) (block [cell1 sample_dataset, cell2]) blank = Inr s \<and>
       model s = Sequential
        [Convolution2D 32 3 3 (Some ''same'') None (Some [32, 32, 3]),
         Activation ''relu'',
         Convolution2D 32 3 3 None None None,
         Activation ''relu'',
         MaxPooling2D (2, 2),
         Dropout (py_float (25 / 100)),
         Convolution2D 64 3 3 (Some ''same'') None None,
         Activation ''relu'',
         Convolution2D 64 3 3 None None None,
         Activation ''relu'',
         MaxPooling2D (2, 2),
         Dropout (py_float (25 / 100)),
         Flatten,
         Dense 512 None,
         Activation ''relu'',
         Dropout (py_float (5 / 10)),
         Dense 10 None,
         Activation ''softmax'']"
proof -
  obtain s where h: "run (never :: nat \<Rightarrow> env \<Rightarrow> string option)
      (block [cell1 sample_dataset, cell2]) blank = Inr s"
    and d: "dims (X_train s) = [2, 32, 32, 3]"
    using sample_cells_1_2 by blast
  from sequential_model_layers [OF h] d have "model s = Sequential
        [Convolution2D 32 3 3 (Some ''same'') None (Some [32, 32, 3]),
         Activation ''relu'',
         Convolution2D 32 3 3 None None None,
         Activation ''relu'',
         MaxPooling2D (2, 2),
         Dropout (py_float (25 / 100)),
         Convolution2D 64 3 3 (Some ''same'') None None,
         Activation ''relu'',
         Convolution2D 64 3 3 None None None,
         Activation ''relu'',
         MaxPooling2D (2, 2),
         Dropout (py_float (25 / 100)),
         Flatten,
         Dense 512 None,
         Activation ''relu'',
         Dropout (py_float (5 / 10)),
         Dense 10 None,
         Activation ''softmax'']" by simp
  with h show ?thesis by blast
qed

subsection \<open>The two definitions of the model\<close>

text \<open>
  Claim C2. The model that cell 2 stacks on a \<^verbatim>\<open>Sequential\<close> and the model that cell 3
  composes from \<^verbatim>\<open>Input\<close> to \<^verbatim>\<open>Model\<close> compute the same output: for every backend,
  every assignment of weights to the six weighted layers and every input, both predictions
  exist and are equal, and both models declare the same input shape. Cell 3 passes the
  \<^verbatim>\<open>relu\<close> of a convolution or dense layer as the layer's \<^verbatim>\<open>activation\<close> argument where
  cell 2 adds an \<^verbatim>\<open>Activation\<close> layer of its own, so the operations agree and the layer
  objects do not: eighteen in cell 2, thirteen in cell 3.
\<close>

theorem sequential_functional_equivalent:
  fixes B :: "('t, 'w) backend"
  assumes "run R cell2 s = Inr s2" and "run R cell3 s2 = Inr s3"
  shows "(\<exists>ls. model s2 = Sequential ls) \<and> (\<exists>tin tout. model s3 = Model tin tout) \<and>
         predict B W (model s3) v = predict B W (model s2) v \<and>
         predict B W (model s2) v \<noteq> None \<and>
         declared_input (model s3) = declared_input (model s2)"
proof -
  note s2 = cell2_Inr [OF assms(1)]
  note s3 = cell3_Inr [OF assms(2)]
  have m2: "\<exists>ls. model s2 = Sequential ls" by (simp add: s2)
  have m3: "\<exists>tin tout. model s3 = Model tin tout" by (subst s3) simp
  have p: "predict B W (model s3) v = predict B W (model s2) v"
    by (subst s3, subst s2) (simp add: s2)
  have n: "predict B W (model s2) v \<noteq> None" by (simp add: s2)
  have d: "declared_input (model s3) = declared_input (model s2)"
    by (subst s3, subst s2) (simp add: s2)
  from m2 m3 p n d show ?thesis by blast
qed

theorem sequential_functional_equivalent_witness:
  "\<exists>s2 s3.
     run (never :: nat \<Rightarrow> env \<Rightarrow> string option) cell2 (blank\<lparr>nb_classes := 10, X_train := fst (fst sample_dataset)\<rparr>) = Inr s2 \<and>
     run (never :: nat \<Rightarrow> env \<Rightarrow> string option) cell3 s2 = Inr s3 \<and>
     predict \<lparr>conv2d = (\<lambda>w nb_filter nb_row nb_col border_mode v. v @ [''conv '' @ border_mode @ '' '' @ w]),
       activation_fn = (\<lambda>a v. v @ [a]),
       max_pooling = (\<lambda>pool_size v. v @ [''pool'']),
       dropout_fn = (\<lambda>p v. v @ [''dropout'']),
       flatten_fn = (\<lambda>v. v @ [''flatten'']),
       dense_fn = (\<lambda>w output_dim v. v @ [''dense '' @ w])\<rparr>
       (\<lambda>k. [''w0'', ''w1'', ''w2'', ''w3'', ''w4'', ''w5''] ! k) (model s3) [] =
     predict \<lparr>conv2d = (\<lambda>w nb_filter nb_row nb_col border_mode v. v @ [''conv '' @ border_mode @ '' '' @ w]),
       activation_fn = (\<lambda>a v. v @ [a]),
       max_pooling = (\<lambda>pool_size v. v @ [''pool'']),
       dropout_fn = (\<lambda>p v. v @ [''dropout'']),
       flatten_fn = (\<lambda>v. v @ [''flatten'']),
       dense_fn = (\<lambda>w output_dim v. v @ [''dense '' @ w])\<rparr>
       (\<lambda>k. [''w0'', ''w1'', ''w2'', ''w3'', ''w4'', ''w5''] ! k) (model s2) [] \<and>
     predict \<lparr>conv2d = (\<lambda>w nb_filter nb_row nb_col border_mode v. v @ [''conv '' @ border_mode @ '' '' @ w]),
       activation_fn = (\<lambda>a v. v @ [a]),
       max_pooling = (\<lambda>pool_size v. v @ [''pool'']),
       dropout_fn = (\<lambda>p v. v @ [''dropout'']),
       flatten_fn = (\<lambda>v. v @ [''flatten'']),
       dense_fn = (\<lambda>w output_dim v. v @ [''dense '' @ w])\<rparr>
       (\<lambda>k. [''w0'', ''w1'', ''w2'', ''w3'', ''w4'', ''w5''] ! k) (model s2) [] =
       Some [''conv same w0'', ''relu'', ''conv valid w1'', ''relu'', ''pool'', ''dropout'',
          ''conv same w2'', ''relu'', ''conv valid w3'', ''relu'', ''pool'', ''dropout'',
          ''flatten'', ''dense w4'', ''relu'', ''dropout'', ''dense w5'', ''softmax'']"
proof -
  obtain s2 s3 where
    h2: "run (never :: nat \<Rightarrow> env \<Rightarrow> string option) cell2 (blank\<lparr>nb_classes := 10, X_train := fst (fst sample_dataset)\<rparr>) = Inr s2" and
    h3: "run (never :: nat \<Rightarrow> env \<Rightarrow> string option) cell3 s2 = Inr s3"
    using sample_cells_2_3 by blast
  let ?B = "\<lparr>conv2d = (\<lambda>w nb_filter nb_row nb_col border_mode v. v @ [''conv '' @ border_mode @ '' '' @ w]),
       activation_fn = (\<lambda>a v. v @ [a]),
       max_pooling = (\<lambda>pool_size v. v @ [''pool'']),
       dropout_fn = (\<lambda>p v. v @ [''dropout'']),
       flatten_fn = (\<lambda>v. v @ [''flatten'']),
       dense_fn = (\<lambda>w output_dim v. v @ [''dense '' @ w])\<rparr>"
  let ?W = "(\<lambda>k. [''w0'', ''w1'', ''w2'', ''w3'', ''w4'', ''w5''] ! k)"
  from sequential_functional_equivalent [OF h2 h3, of ?B ?W "[]"]
  have e: "predict ?B ?W (model s3) [] = predict ?B ?W (model s2) []" by blast
  have "model s2 = Sequential
     [Convolution2D 32 3 3 (Some ''same'') None (Some [32, 32, 3]),
      Activation ''relu'',
      Convolution2D 32 3 3 None None None,
      Activation ''relu'',
      MaxPooling2D (2, 2),
      Dropout (py_float (25 / 100)),
      Convolution2D 64 3 3 (Some ''same'') None None,
      Activation ''relu'',
      Convolution2D 64 3 3 None None None,
      Activation ''relu'',
      MaxPooling2D (2, 2),
      Dropout (py_float (25 / 100)),
      Flatten,
      Dense 512 None,
      Activation ''relu'',
      Dropout (py_float (5 / 10)),
      Dense 10 None,
      Activation ''softmax'']"
    unfolding cell2_Inr [OF h2] by (simp add: blank_def sample_dataset_def)
  then have "predict ?B ?W (model s2) [] =
       Some [''conv same w0'', ''relu'', ''conv valid w1'', ''relu'', ''pool'', ''dropout'',
          ''conv same w2'', ''relu'', ''conv valid w3'', ''relu'', ''pool'', ''dropout'',
          ''flatten'', ''dense w4'', ''relu'', ''dropout'', ''dense w5'', ''softmax'']"
    by simp
  with h2 h3 e show ?thesis by blast
qed

subsection \<open>Normalized pixels\<close>

text \<open>
  Claim C3, amended. After cell 1 each image array has the shape it was loaded with, and
  a pixel that was \<open>p\<close> is stored as the binary32 value of the quotient \<open>p / 255\<close>: a
  number of the interval from 0 to 1 that differs from \<open>p / 255\<close> by at most \<open>2^-25\<close>.
\<close>

theorem normalization_float32:
  assumes "run R (cell1 D) s0 = Inr s"
    and "fst (fst D) = UInt8 (NDArray sh ps)"
    and "fst (snd D) = UInt8 (NDArray sh' ps')"
  shows "X_train s = Float32 (NDArray sh (map (\<lambda>p. float32 (of_nat (unat p) / 255)) ps)) \<and>
         X_test s = Float32 (NDArray sh' (map (\<lambda>p. float32 (of_nat (unat p) / 255)) ps')) \<and>
         (\<forall>p :: 8 word. \<exists>v. float32 (of_nat (unat p) / 255) = Finite v \<and> 0 \<le> v \<and> v \<le> 1 \<and>
            \<bar>v - of_nat (unat p) / 255\<bar> \<le> 1 / 2 ^ 25)"
  using cell1_Inr [OF assms(1)] assms(2,3) normalized_pixel_range
  by (simp only: normalize_uint8) blast

theorem normalization_float32_witness:
  "\<exists>s. run (never :: nat \<Rightarrow> env \<Rightarrow> string option) (cell1 sample_dataset) blank = Inr s \<and>
       fst (fst sample_dataset) = UInt8 (NDArray [2, 32, 32, 3] (replicate 6144 128)) \<and>
       fst (snd sample_dataset) = UInt8 (NDArray [1, 32, 32, 3] (replicate 3072 255)) \<and>
       X_train s = Float32 (NDArray [2, 32, 32, 3] (replicate 6144 (float32 (128 / 255)))) \<and>
       X_test s = Float32 (NDArray [1, 32, 32, 3] (replicate 3072 (Finite 1)))"
proof -
  obtain s where h: "run (never :: nat \<Rightarrow> env \<Rightarrow> string option) (cell1 sample_dataset) blank = Inr s"
    using sample_cell1 by blast
  have a: "fst (fst sample_dataset) = UInt8 (NDArray [2, 32, 32, 3] (replicate 6144 128))"
    and b: "fst (snd sample_dataset) = UInt8 (NDArray [1, 32, 32, 3] (replicate 3072 255))"
    by (simp_all add: sample_dataset_def)
  from normalization_float32 [OF h a b]
  have "X_train s = Float32 (NDArray [2, 32, 32, 3] (replicate 6144 (float32 (128 / 255))))"
    and "X_test s = Float32 (NDArray [1, 32, 32, 3] (replicate 3072 (Finite 1)))"
    by (simp_all add: float32_one)
  with h a b show ?thesis by blast
qed

text \<open>
  The claim C3 as it was stated asks for the stored value to equal \<open>p / 255\<close>. For the
  pixel 1 line 80 stores \<open>8421505 / 2^31\<close>, which is not \<open>1 / 255\<close>: no binary float is.
\<close>

theorem normalization_exact_counterexample:
  "true_divide (astype_float32 (UInt8 (NDArray [1] [1]))) 255 =
     Float32 (NDArray [1] [Finite (8421505 / 2147483648)]) \<and>
   (8421505 / 2147483648 :: rat) \<noteq> 1 / 255"
  by (simp only: normalize_uint8) (simp add: pixel_one)

subsection \<open>One-hot labels\<close>

text \<open>
  Claim C4. When cell 1 has run, every label is below 10, and \<^verbatim>\<open>Y_train\<close> and
  \<^verbatim>\<open>Y_test\<close> hold for each label \<open>t\<close>, in order, the vector \<open>one_hot 10 t\<close>: for \<open>t\<close>
  below 10 a vector of length 10 with 1 at index \<open>t\<close> and 0 at every other index.
\<close>

theorem labels_one_hot:
  assumes "run R (cell1 D) s0 = Inr s"
  shows "Y_train s = NDArray [length (flat (snd (fst D))), 10]
                       (concat (map (one_hot 10) (flat (snd (fst D))))) \<and>
         Y_test s = NDArray [length (flat (snd (snd D))), 10]
                       (concat (map (one_hot 10) (flat (snd (snd D))))) \<and>
         (\<forall>t \<in> set (flat (snd (fst D))) \<union> set (flat (snd (snd D))). t < 10) \<and>
         (\<forall>t<10. length (one_hot 10 t) = 10 \<and> one_hot 10 t ! t = Finite 1 \<and>
            (\<forall>i<10. i \<noteq> t \<longrightarrow> one_hot 10 t ! i = Finite 0))"
proof -
  note c = cell1_Inr [OF assms]
  from c have "\<forall>t \<in> set (flat (snd (fst D))) \<union> set (flat (snd (snd D))). t < 10"
    by (auto simp: list_ex_iff)
  moreover have "\<forall>t<10. length (one_hot 10 t) = 10 \<and> one_hot 10 t ! t = Finite 1 \<and>
            (\<forall>i<10. i \<noteq> t \<longrightarrow> one_hot 10 t ! i = Finite 0)"
    using one_hot_entries by blast
  ultimately show ?thesis using c by blast
qed

theorem labels_one_hot_witness:
  "\<exists>s. run (never :: nat \<Rightarrow> env \<Rightarrow> string option) (cell1 sample_dataset) blank = Inr s \<and>
       flat (snd (fst sample_dataset)) = [3, 9] \<and>
       Y_train s = NDArray [2, 10]
         [Finite 0, Finite 0, Finite 0, Finite 1, Finite 0, Finite 0, Finite 0, Finite 0, Finite 0, Finite 0,
          Finite 0, Finite 0, Finite 0, Finite 0, Finite 0, Finite 0, Finite 0, Finite 0, Finite 0, Finite 1] \<and>
       (3::nat) < 10 \<and> length (one_hot 10 3) = 10 \<and> one_hot 10 3 ! 3 = Finite 1 \<and>
       (0::nat) < 10 \<and> (0::nat) \<noteq> 3 \<and> one_hot 10 3 ! 0 = Finite 0"
proof -
  obtain s where h: "run (never :: nat \<Rightarrow> env \<Rightarrow> string option) (cell1 sample_dataset) blank = Inr s"
    using sample_cell1 by blast
  have f: "flat (snd (fst sample_dataset)) = [3, 9]" by (simp add: sample_dataset_def)
  note t = labels_one_hot [OF h]
  from t f have y: "Y_train s = NDArray [2, 10]
         [Finite 0, Finite 0, Finite 0, Finite 1, Finite 0, Finite 0, Finite 0, Finite 0, Finite 0, Finite 0,
          Finite 0, Finite 0, Finite 0, Finite 0, Finite 0, Finite 0, Finite 0, Finite 0, Finite 0, Finite 1]"
    by (simp add: one_hot_3 one_hot_9)
  from t have "length (one_hot 10 3) = 10 \<and> one_hot 10 3 ! 3 = Finite 1 \<and> one_hot 10 3 ! 0 = Finite 0"
    by (simp add: one_hot_3)
  with h f y show ?thesis by simp
qed

subsection \<open>The compilation\<close>

text \<open>
  Claim C5. Cell 5 makes one call of \<^verbatim>\<open>compile\<close>, on the model bound to \<^verbatim>\<open>model\<close>, with
  the loss \<^verbatim>\<open>'categorical_crossentropy'\<close>, the metrics \<^verbatim>\<open>['accuracy']\<close> and an SGD
  optimizer of learning rate 0.01, decay 1e-6, momentum 0.9 and Nesterov momentum
  switched on.
\<close>

theorem compile_parameters:
  assumes "run R cell5 s = Inr s'"
  shows "sgd s' = \<lparr>lr = py_float (1 / 100), decay = py_float (1 / 10 ^ 6),
              momentum = py_float (9 / 10), nesterov = True\<rparr> \<and>
         calls s' = calls s @
           [Compile (model s) ''categorical_crossentropy''
              \<lparr>lr = py_float (1 / 100), decay = py_float (1 / 10 ^ 6),
              momentum = py_float (9 / 10), nesterov = True\<rparr>
              [''accuracy'']]"
  by (subst (1 2) cell5_Inr [OF assms]) simp

theorem compile_parameters_witness:
  "\<exists>s'. run (never :: nat \<Rightarrow> env \<Rightarrow> string option) cell5 blank = Inr s' \<and>
        calls s' =
           [Compile (Sequential []) ''categorical_crossentropy''
              \<lparr>lr = py_float (1 / 100), decay = py_float (1 / 10 ^ 6),
              momentum = py_float (9 / 10), nesterov = True\<rparr>
              [''accuracy'']]"
proof -
  have "\<exists>s'. run (never :: nat \<Rightarrow> env \<Rightarrow> string option) cell5 blank = Inr s'"
    by (simp add: cell5_def never_def)
  then obtain s' where h: "run (never :: nat \<Rightarrow> env \<Rightarrow> string option) cell5 blank = Inr s'" by blast
  from compile_parameters [OF h] have "calls s' =
           [Compile (Sequential []) ''categorical_crossentropy''
              \<lparr>lr = py_float (1 / 100), decay = py_float (1 / 10 ^ 6),
              momentum = py_float (9 / 10), nesterov = True\<rparr>
              [''accuracy'']]" by (simp add: blank_def)
  with h show ?thesis by blast
qed

subsection \<open>The training\<close>

text \<open>
  Claim C6. Cells 6 and 7 set the batch size to 128, the number of epochs to 200 and the
  augmentation switch to true, and then train through the generator: \<^verbatim>\<open>fit_generator\<close> is
  given the flow of \<^verbatim>\<open>X_train\<close> and \<^verbatim>\<open>Y_train\<close> in batches of 128, as many samples
  per epoch as \<^verbatim>\<open>X_train\<close> has along its first axis, 200 epochs and \<^verbatim>\<open>(X_test, Y_test)\<close>
  for validation. Had the switch been false after cell 6, cell 7 would have called
  \<^verbatim>\<open>fit\<close> on the same data with batch size 128, 200 epochs, the same validation data and
  shuffling.
\<close>

theorem training_invocation:
  assumes "run R (block [cell6, cell7]) s = Inr s'"
    and "run R cell6 s = Inr t"
    and "run R cell7 (t\<lparr>data_augmentation := False\<rparr>) = Inr t'"
  shows "batch_size s' = 128 \<and> nb_epoch s' = 200 \<and> data_augmentation s' \<and>
         (\<exists>n rest. dims (X_train s) = n # rest \<and>
            calls s' = calls s @
              [DatagenFit (datagen s') (X_train s),
               FitGenerator (model s) (Flow (datagen s') (X_train s) (Y_train s) 128)
                 n 200 (X_test s, Y_test s)]) \<and>
         calls t' = calls s @
           [Fit (model s) (X_train s) (Y_train s) 128 200 (X_test s, Y_test s) True]"
proof -
  from assms(1) obtain u where u: "run R cell6 s = Inr u" and "run R (block [cell7]) u = Inr s'"
    by (rule run_block_Inr)
  then have s': "run R cell7 u = Inr s'" by (auto split: sum.splits)
  note u6 = cell6_Inr [OF u]
  have "data_augmentation u" unfolding u6 by simp
  from cell7_augmented_Inr [OF s' this] obtain n rest where
    d: "dims (X_train u) = n # rest" and
    e: "s' = u\<lparr>stdout := stdout u @ [Print [PStr ''Using real-time data augmentation.'']],
            datagen := \<lparr>featurewise_center = False, samplewise_center = False,
            featurewise_std_normalization = False, samplewise_std_normalization = False,
            zca_whitening = False, rotation_range = 0,
            width_shift_range = py_float (1 / 10), height_shift_range = py_float (1 / 10),
            horizontal_flip = True, vertical_flip = False\<rparr>,
            calls := calls u @
              [DatagenFit \<lparr>featurewise_center = False, samplewise_center = False,
            featurewise_std_normalization = False, samplewise_std_normalization = False,
            zca_whitening = False, rotation_range = 0,
            width_shift_range = py_float (1 / 10), height_shift_range = py_float (1 / 10),
            horizontal_flip = True, vertical_flip = False\<rparr> (X_train u),
               FitGenerator (model u)
                 (Flow \<lparr>featurewise_center = False, samplewise_center = False,
            featurewise_std_normalization = False, samplewise_std_normalization = False,
            zca_whitening = False, rotation_range = 0,
            width_shift_range = py_float (1 / 10), height_shift_range = py_float (1 / 10),
            horizontal_flip = True, vertical_flip = False\<rparr> (X_train u) (Y_train u) (batch_size u))
                 n (nb_epoch u) (X_test u, Y_test u)]\<rparr>"
    by blast
  have A: "batch_size s' = 128 \<and> nb_epoch s' = 200 \<and> data_augmentation s'"
    unfolding e u6 by simp
  have d': "dims (X_train s) = n # rest" using d unfolding u6 by simp
  have c: "calls s' = calls s @
              [DatagenFit (datagen s') (X_train s),
               FitGenerator (model s) (Flow (datagen s') (X_train s) (Y_train s) 128)
                 n 200 (X_test s, Y_test s)]"
    unfolding e u6 by simp
  note t6 = cell6_Inr [OF assms(2)]
  have "\<not> data_augmentation (t\<lparr>data_augmentation := False\<rparr>)" by simp
  from cell7_plain_Inr [OF assms(3) this]
  have f: "calls t' = calls s @
           [Fit (model s) (X_train s) (Y_train s) 128 200 (X_test s, Y_test s) True]"
    unfolding t6 by simp
  from A d' c f show ?thesis by blast
qed

theorem training_invocation_witness:
  "\<exists>s' t t'.
     run (never :: nat \<Rightarrow> env \<Rightarrow> string option) (block [cell6, cell7])
       (blank\<lparr>X_train := fst (fst sample_dataset)\<rparr>) = Inr s' \<and>
     run (never :: nat \<Rightarrow> env \<Rightarrow> string option) cell6
       (blank\<lparr>X_train := fst (fst sample_dataset)\<rparr>) = Inr t \<and>
     run (never :: nat \<Rightarrow> env \<Rightarrow> string option) cell7 (t\<lparr>data_augmentation := False\<rparr>) = Inr t' \<and>
     batch_size s' = 128 \<and> nb_epoch s' = 200 \<and> data_augmentation s' \<and>
     calls s' =
       [DatagenFit (datagen s') (UInt8 (NDArray [2, 32, 32, 3] (replicate 6144 128))),
        FitGenerator (Sequential [])
          (Flow (datagen s') (UInt8 (NDArray [2, 32, 32, 3] (replicate 6144 128))) (NDArray [] []) 128)
          2 200 (UInt8 (NDArray [] []), NDArray [] [])] \<and>
     calls t' =
       [Fit (Sequential []) (UInt8 (NDArray [2, 32, 32, 3] (replicate 6144 128))) (NDArray [] [])
          128 200 (UInt8 (NDArray [] []), NDArray [] []) True]"
proof -
  let ?w = "blank\<lparr>X_train := fst (fst sample_dataset)\<rparr>"
  obtain s' t t' where
    h1: "run (never :: nat \<Rightarrow> env \<Rightarrow> string option) (block [cell6, cell7]) ?w = Inr s'" and
    h2: "run (never :: nat \<Rightarrow> env \<Rightarrow> string option) cell6 ?w = Inr t" and
    h3: "run (never :: nat \<Rightarrow> env \<Rightarrow> string option) cell7 (t\<lparr>data_augmentation := False\<rparr>) = Inr t'"
    using sample_training by blast
  have w: "calls ?w = []" "model ?w = Sequential []"
    "X_train ?w = UInt8 (NDArray [2, 32, 32, 3] (replicate 6144 128))"
    "Y_train ?w = NDArray [] []" "X_test ?w = UInt8 (NDArray [] [])" "Y_test ?w = NDArray [] []"
    by (simp_all add: blank_def sample_dataset_def)
  from training_invocation [OF h1 h2 h3]
  have "batch_size s' = 128 \<and> nb_epoch s' = 200 \<and> data_augmentation s' \<and>
     calls s' =
       [DatagenFit (datagen s') (UInt8 (NDArray [2, 32, 32, 3] (replicate 6144 128))),
        FitGenerator (Sequential [])
          (Flow (datagen s') (UInt8 (NDArray [2, 32, 32, 3] (replicate 6144 128))) (NDArray [] []) 128)
          2 200 (UInt8 (NDArray [] []), NDArray [] [])] \<and>
     calls t' =
       [Fit (Sequential []) (UInt8 (NDArray [2, 32, 32, 3] (replicate 6144 128))) (NDArray [] [])
          128 200 (UInt8 (NDArray [] []), NDArray [] []) True]"
    unfolding w by auto
  with h1 h2 h3 show ?thesis by blast
qed

subsection \<open>Exceptions\<close>

text \<open>
  Claim C8. The notebook handles no exception. Whenever the library raises \<open>e\<close> in a
  statement the run has reached, the run of the whole notebook ends with \<open>e\<close> itself, that
  statement is the last one started, and no statement is started twice.
\<close>

theorem exceptions_propagate:
  assumes "(l, t) \<in> set (reach R (notebook D) s0)" and "R l t = Some e"
  shows "run R (notebook D) s0 = Inl (Raised e) \<and>
         last (reach R (notebook D) s0) = (l, t) \<and>
         distinct (map fst (reach R (notebook D) s0))"
  using reach_raise [OF assms] reach_distinct [OF notebook_lines_distinct] by simp

theorem exceptions_propagate_witness:
  "(77, blank\<lparr>nb_classes := 10, img_rows := 32, img_cols := 32, img_channels := 3\<rparr>)
      \<in> set (reach (\<lambda>l s. if l = 77 then Some ''IOError'' else None) (notebook sample_dataset) blank) \<and>
   (\<lambda>l s. if l = 77 then Some ''IOError'' else None) 77
      (blank\<lparr>nb_classes := 10, img_rows := 32, img_cols := 32, img_channels := 3\<rparr>) = Some ''IOError'' \<and>
   run (\<lambda>l s. if l = 77 then Some ''IOError'' else None) (notebook sample_dataset) blank
      = Inl (Raised ''IOError'') \<and>
   map fst (reach (\<lambda>l s. if l = 77 then Some ''IOError'' else None) (notebook sample_dataset) blank)
      = [66, 67, 68, 71, 74, 77]"
proof -
  let ?R = "\<lambda>(l::nat) (s::env). if l = 77 then Some ''IOError'' else None"
  let ?t = "blank\<lparr>nb_classes := 10, img_rows := 32, img_cols := 32, img_channels := 3\<rparr>"
  have m: "(77, ?t) \<in> set (reach ?R (notebook sample_dataset) blank)"
    by (simp add: notebook_def cell1_def)
  have r: "?R 77 ?t = Some ''IOError''" by simp
  have l: "map fst (reach ?R (notebook sample_dataset) blank) = [66, 67, 68, 71, 74, 77]"
    by (simp add: notebook_def cell1_def)
  from exceptions_propagate [of 77 ?t ?R sample_dataset blank, OF m r] m r l
  show ?thesis by simp
qed

subsection \<open>The model that is trained\<close>

text \<open>
  Claim C9. When the notebook has run, the name \<^verbatim>\<open>model\<close> holds the \<^verbatim>\<open>Model\<close> of cell 3,
  built from \<^verbatim>\<open>model_in\<close> and \<^verbatim>\<open>model_out\<close>, where after cell 2 it held a
  \<^verbatim>\<open>Sequential\<close>. The calls logged by the run are four: the summary, the compilation
  and the training, all three on that \<^verbatim>\<open>Model\<close>, and the fitting of the generator to
  the data. None is on the \<^verbatim>\<open>Sequential\<close>.
\<close>

theorem functional_model_is_trained:
  assumes "run R (notebook D) s0 = Inr s"
  shows "\<exists>s2. run R (block [cell1 D, cell2]) s0 = Inr s2 \<and>
           (\<exists>ls. model s2 = Sequential ls) \<and>
           model s = Model (model_in s) (model_out s) \<and>
           (\<exists>n. calls s = calls s0 @
              [Summary (model s),
               Compile (model s) ''categorical_crossentropy'' (sgd s) [''accuracy''],
               DatagenFit (datagen s) (X_train s),
               FitGenerator (model s) (Flow (datagen s) (X_train s) (Y_train s) (batch_size s))
                 n (nb_epoch s) (X_test s, Y_test s)])"
proof -
  from assms have "run R (block [cell1 D, cell2, cell3, cell4, cell5, cell6, cell7]) s0 = Inr s"
    by (simp only: notebook_def)
  then obtain t1 where r1: "run R (cell1 D) s0 = Inr t1"
    and b1: "run R (block [cell2, cell3, cell4, cell5, cell6, cell7]) t1 = Inr s"
    by (rule run_block_Inr)
  from b1 obtain t2 where r2: "run R cell2 t1 = Inr t2"
    and b2: "run R (block [cell3, cell4, cell5, cell6, cell7]) t2 = Inr s"
    by (rule run_block_Inr)
  from b2 obtain t3 where r3: "run R cell3 t2 = Inr t3"
    and b3: "run R (block [cell4, cell5, cell6, cell7]) t3 = Inr s"
    by (rule run_block_Inr)
  from b3 obtain t4 where r4: "run R cell4 t3 = Inr t4"
    and b4: "run R (block [cell5, cell6, cell7]) t4 = Inr s"
    by (rule run_block_Inr)
  from b4 obtain t5 where r5: "run R cell5 t4 = Inr t5"
    and b5: "run R (block [cell6, cell7]) t5 = Inr s"
    by (rule run_block_Inr)
  from b5 obtain t6 where r6: "run R cell6 t5 = Inr t6"
    and b6: "run R (block [cell7]) t6 = Inr s"
    by (rule run_block_Inr)
  from b6 have r7: "run R cell7 t6 = Inr s" by (auto split: sum.splits)
  have r12: "run R (block [cell1 D, cell2]) s0 = Inr t2" by (simp add: r1 r2)
  note e2 = cell2_Inr [OF r2]
  note e3 = cell3_Inr [OF r3]
  note e4 = cell4_Inr [OF r4]
  note e5 = cell5_Inr [OF r5]
  note e6 = cell6_Inr [OF r6]
  have c1: "calls t1 = calls s0" using cell1_Inr [OF r1] by simp
  have "data_augmentation t6" unfolding e6 by simp
  from cell7_augmented_Inr [OF r7 this] obtain n rest where
    e7: "s = t6\<lparr>stdout := stdout t6 @ [Print [PStr ''Using real-time data augmentation.'']],
            datagen := \<lparr>featurewise_center = False, samplewise_center = False,
            featurewise_std_normalization = False, samplewise_std_normalization = False,
            zca_whitening = False, rotation_range = 0,
            width_shift_range = py_float (1 / 10), height_shift_range = py_float (1 / 10),
            horizontal_flip = True, vertical_flip = False\<rparr>,
            calls := calls t6 @
              [DatagenFit \<lparr>featurewise_center = False, samplewise_center = False,
            featurewise_std_normalization = False, samplewise_std_normalization = False,
            zca_whitening = False, rotation_range = 0,
            width_shift_range = py_float (1 / 10), height_shift_range = py_float (1 / 10),
            horizontal_flip = True, vertical_flip = False\<rparr> (X_train t6),
               FitGenerator (model t6)
                 (Flow \<lparr>featurewise_center = False, samplewise_center = False,
            featurewise_std_normalization = False, samplewise_std_normalization = False,
            zca_whitening = False, rotation_range = 0,
            width_shift_range = py_float (1 / 10), height_shift_range = py_float (1 / 10),
            horizontal_flip = True, vertical_flip = False\<rparr> (X_train t6) (Y_train t6) (batch_size t6))
                 n (nb_epoch t6) (X_test t6, Y_test t6)]\<rparr>"
    by blast
  have m2: "\<exists>ls. model t2 = Sequential ls" unfolding e2 by simp
  have f2: "calls t2 = calls t1" unfolding e2 by simp
  have f3: "model t3 = Model (model_in t3) (model_out t3)" "calls t3 = calls t2"
    unfolding e3 by simp_all
  have f4: "model t4 = model t3" "model_in t4 = model_in t3" "model_out t4 = model_out t3"
    "calls t4 = calls t3 @ [Summary (model t3)]"
    unfolding e4 by simp_all
  have f5: "model t5 = model t4" "model_in t5 = model_in t4" "model_out t5 = model_out t4"
    "calls t5 = calls t4 @ [Compile (model t4) ''categorical_crossentropy'' (sgd t5) [''accuracy'']]"
    unfolding e5 by simp_all
  have f6: "model t6 = model t5" "model_in t6 = model_in t5" "model_out t6 = model_out t5"
    "calls t6 = calls t5" "sgd t6 = sgd t5"
    unfolding e6 by simp_all
  have f7: "model s = model t6" "model_in s = model_in t6" "model_out s = model_out t6"
    "sgd s = sgd t6"
    "calls s = calls t6 @
       [DatagenFit (datagen s) (X_train s),
        FitGenerator (model s) (Flow (datagen s) (X_train s) (Y_train s) (batch_size s))
          n (nb_epoch s) (X_test s, Y_test s)]"
    unfolding e7 by simp_all
  have m: "model s = Model (model_in s) (model_out s)"
    using f3(1) by (simp add: f4 f5 f6 f7(1-4))
  have c: "calls s = calls s0 @
              [Summary (model s),
               Compile (model s) ''categorical_crossentropy'' (sgd s) [''accuracy''],
               DatagenFit (datagen s) (X_train s),
               FitGenerator (model s) (Flow (datagen s) (X_train s) (Y_train s) (batch_size s))
                 n (nb_epoch s) (X_test s, Y_test s)]"
    by (subst f7(5)) (simp add: f6 f5 f4 f3(2) f2 c1 f7(1-4))
  from r12 m2 m c show ?thesis by blast
qed

theorem functional_model_is_trained_witness:
  "\<exists>s. run (never :: nat \<Rightarrow> env \<Rightarrow> string option) (notebook sample_dataset) blank = Inr s \<and>
       model s = Model (model_in s) (model_out s) \<and>
       length (calls s) = 4 \<and> hd (calls s) = Summary (model s)"
proof -
  obtain s where h: "run (never :: nat \<Rightarrow> env \<Rightarrow> string option) (notebook sample_dataset) blank = Inr s"
    using sample_notebook by blast
  from functional_model_is_trained [OF h] obtain n where
    m: "model s = Model (model_in s) (model_out s)" and
    c: "calls s = calls blank @
              [Summary (model s),
               Compile (model s) ''categorical_crossentropy'' (sgd s) [''accuracy''],
               DatagenFit (datagen s) (X_train s),
               FitGenerator (model s) (Flow (datagen s) (X_train s) (Y_train s) (batch_size s))
                 n (nb_epoch s) (X_test s, Y_test s)]"
    by blast
  have "calls blank = []" by (simp add: blank_def)
  with c have "length (calls s) = 4" "hd (calls s) = Summary (model s)" by simp_all
  with h m show ?thesis by blast
qed

subsection \<open>The augmentation\<close>

text \<open>
  Claim C10. With the augmentation switched on, cell 7 builds the generator with every
  centering, normalization and whitening switch off, rotation range 0 and no vertical
  flip, so that what it may do to an image is a horizontal shift within 0.1 of the width,
  a vertical shift within 0.1 of the height and a horizontal flip, and nothing else. This
  generator is the one fitted to the data and the one whose flow trains the model.
\<close>

theorem augmentation_configuration:
  assumes "run R cell7 s = Inr s'" and "data_augmentation s"
  shows "datagen s' = \<lparr>featurewise_center = False, samplewise_center = False,
            featurewise_std_normalization = False, samplewise_std_normalization = False,
            zca_whitening = False, rotation_range = 0,
            width_shift_range = py_float (1 / 10), height_shift_range = py_float (1 / 10),
            horizontal_flip = True, vertical_flip = False\<rparr> \<and>
         transformations (datagen s') =
           [WidthShift (py_float (1 / 10)), HeightShift (py_float (1 / 10)), HorizontalFlip] \<and>
         (\<exists>n. calls s' = calls s @
            [DatagenFit (datagen s') (X_train s),
             FitGenerator (model s) (Flow (datagen s') (X_train s) (Y_train s) (batch_size s))
               n (nb_epoch s) (X_test s, Y_test s)])"
proof -
  from cell7_augmented_Inr [OF assms] obtain n rest where
    e: "s' = s\<lparr>stdout := stdout s @ [Print [PStr ''Using real-time data augmentation.'']],
            datagen := \<lparr>featurewise_center = False, samplewise_center = False,
            featurewise_std_normalization = False, samplewise_std_normalization = False,
            zca_whitening = False, rotation_range = 0,
            width_shift_range = py_float (1 / 10), height_shift_range = py_float (1 / 10),
            horizontal_flip = True, vertical_flip = False\<rparr>,
            calls := calls s @
              [DatagenFit \<lparr>featurewise_center = False, samplewise_center = False,
            featurewise_std_normalization = False, samplewise_std_normalization = False,
            zca_whitening = False, rotation_range = 0,
            width_shift_range = py_float (1 / 10), height_shift_range = py_float (1 / 10),
            horizontal_flip = True, vertical_flip = False\<rparr> (X_train s),
               FitGenerator (model s)
                 (Flow \<lparr>featurewise_center = False, samplewise_center = False,
            featurewise_std_normalization = False, samplewise_std_normalization = False,
            zca_whitening = False, rotation_range = 0,
            width_shift_range = py_float (1 / 10), height_shift_range = py_float (1 / 10),
            horizontal_flip = True, vertical_flip = False\<rparr> (X_train s) (Y_train s) (batch_size s))
                 n (nb_epoch s) (X_test s, Y_test s)]\<rparr>"
    by blast
  have g: "datagen s' = \<lparr>featurewise_center = False, samplewise_center = False,
            featurewise_std_normalization = False, samplewise_std_normalization = False,
            zca_whitening = False, rotation_range = 0,
            width_shift_range = py_float (1 / 10), height_shift_range = py_float (1 / 10),
            horizontal_flip = True, vertical_flip = False\<rparr>" unfolding e by simp
  have t: "transformations (datagen s') =
           [WidthShift (py_float (1 / 10)), HeightShift (py_float (1 / 10)), HorizontalFlip]"
    unfolding g by (simp add: transformations_def py_float_tenth)
  have c: "calls s' = calls s @
            [DatagenFit (datagen s') (X_train s),
             FitGenerator (model s) (Flow (datagen s') (X_train s) (Y_train s) (batch_size s))
               n (nb_epoch s) (X_test s, Y_test s)]"
    unfolding g unfolding e by simp
  from g t c show ?thesis by blast
qed

theorem augmentation_configuration_witness:
  "\<exists>s'. run (never :: nat \<Rightarrow> env \<Rightarrow> string option) cell7
       (blank\<lparr>X_train := fst (fst sample_dataset), data_augmentation := True\<rparr>) = Inr s' \<and>
     data_augmentation (blank\<lparr>X_train := fst (fst sample_dataset), data_augmentation := True\<rparr>) \<and>
     transformations (datagen s') =
       [WidthShift (py_float (1 / 10)), HeightShift (py_float (1 / 10)), HorizontalFlip] \<and>
     length (calls s') = 2"
proof -
  let ?w = "blank\<lparr>X_train := fst (fst sample_dataset), data_augmentation := True\<rparr>"
  obtain s' where h: "run (never :: nat \<Rightarrow> env \<Rightarrow> string option) cell7 ?w = Inr s'"
    using sample_augmented by blast
  have a: "data_augmentation ?w" by simp
  have w: "calls ?w = []" by (simp add: blank_def)
  from augmentation_configuration [OF h a]
  have "transformations (datagen s') =
       [WidthShift (py_float (1 / 10)), HeightShift (py_float (1 / 10)), HorizontalFlip] \<and>
     length (calls s') = 2"
    unfolding w by auto
  with h a show ?thesis by blast
qed

end
